theory Spec2Isabelle
  imports Main
begin

section \<open>The capture-job queue interface\<close>

text \<open>
  Source: \<^verbatim>\<open>lib/django/djff/static/djff/old_cq_interface.js\<close>.
  The file is one \<open>document.ready\<close> closure: a handful of functions that read and
  write the page (jQuery selectors), a few globals on \<open>window\<close>, browser timers and
  calls of \<open>window.ff.celery_async\<close>. The model is explicit state passing over one
  record holding exactly the page elements, globals, timers and issued calls that the
  file touches. Every function keeps its source name.
\<close>

subsection \<open>JavaScript values and loose equality\<close>

text \<open>
  The experiment id read back from the page is \<open>undefined\<close> (attribute missing), the
  boolean \<open>false\<close> (what \<open>get_xp_id\<close> returns for the empty attribute) or a string.
\<close>

datatype xp_value = X_undefined | X_false | X_string string

text \<open>
  \<open>x == false\<close> and \<open>false == s\<close> convert the string with ToNumber and compare with
  \<open>0\<close>. \<open>string_to_number_is_zero s\<close> decides whether ToNumber of \<open>s\<close> is zero,
  following the StringNumericLiteral grammar of ECMAScript 2015: surrounding white space
  is dropped; the empty text is \<open>0\<close>; a decimal literal (optional sign, digits, optional
  fraction, optional exponent) is zero when its mantissa is, or when its value is at most
  \<open>2^-1075\<close> and rounds to zero; a hexadecimal, binary or octal literal is zero when
  all its digits are. Everything else (\<open>Infinity\<close>, \<open>false\<close>, \<open>NaN\<close>, ...) is
  not zero. A \<open>string\<close> holds the code units below 256, so the white space covered is
  the white space among those: tab, line feed, vertical tab, form feed, carriage return,
  space and the no-break space U+00A0.
\<close>

definition js_white_space :: "char \<Rightarrow> bool" where
  "js_white_space c \<longleftrightarrow> c \<in> set [CHR 0x09, CHR 0x0A, CHR 0x0B, CHR 0x0C, CHR 0x0D, CHR 0x20, CHR 0xA0]"

definition js_trim :: "string \<Rightarrow> string" where
  "js_trim s = rev (dropWhile js_white_space (rev (dropWhile js_white_space s)))"

definition is_digit :: "char \<Rightarrow> bool" where
  "is_digit c \<longleftrightarrow> c \<in> set ''0123456789''"

definition digits_value :: "string \<Rightarrow> int" where
  "digits_value ds = foldl (\<lambda>n c. 10 * n + (of_char c - 48)) 0 ds"

definition strip_sign :: "string \<Rightarrow> string" where
  "strip_sign s = (case s of [] \<Rightarrow> [] | c # r \<Rightarrow> if c = CHR ''+'' \<or> c = CHR ''-'' then r else s)"

definition exponent_value :: "string \<Rightarrow> int option" where
  \<comment> \<open>the text after \<open>e\<close> or \<open>E\<close>: an optional sign and at least one digit\<close>
  "exponent_value s =
     (let ds = strip_sign s in
      if ds \<noteq> [] \<and> list_all is_digit ds
      then Some (if s \<noteq> [] \<and> hd s = CHR ''-'' then - digits_value ds else digits_value ds)
      else None)"

definition rounds_to_zero :: "int \<Rightarrow> int \<Rightarrow> bool" where
  \<comment> \<open>\<open>m * 10^k\<close> is zero as a double: \<open>m = 0\<close>, or the value is at most half the least subnormal\<close>
  "rounds_to_zero m k \<longleftrightarrow> m = 0 \<or> (k < 0 \<and> m * 2 ^ 1075 \<le> 10 ^ nat (- k))"

definition unsigned_decimal_is_zero :: "string \<Rightarrow> bool" where
  "unsigned_decimal_is_zero s =
     (let ip = takeWhile is_digit s;
          r1 = dropWhile is_digit s;
          has_dot = (r1 \<noteq> [] \<and> hd r1 = CHR ''.'');
          fp = (if has_dot then takeWhile is_digit (tl r1) else []);
          r2 = (if has_dot then dropWhile is_digit (tl r1) else r1);
          ex = (if r2 = [] then Some 0
                else if hd r2 = CHR ''e'' \<or> hd r2 = CHR ''E'' then exponent_value (tl r2)
                else None)
      in case ex of
           None \<Rightarrow> False
         | Some e \<Rightarrow> (ip \<noteq> [] \<or> fp \<noteq> []) \<and> rounds_to_zero (digits_value (ip @ fp)) (e - int (length fp)))"

definition prefixed_literal_is_zero :: "string \<Rightarrow> bool" where
  \<comment> \<open>\<open>0x\<close>, \<open>0b\<close>, \<open>0o\<close> (either case) followed by zeros only\<close>
  "prefixed_literal_is_zero s =
     (case s of
        c0 # c1 # ds \<Rightarrow> c0 = CHR ''0'' \<and> c1 \<in> set ''xXbBoO'' \<and> ds \<noteq> [] \<and> list_all (\<lambda>c. c = CHR ''0'') ds
      | _ \<Rightarrow> False)"

definition string_to_number_is_zero :: "string \<Rightarrow> bool" where
  "string_to_number_is_zero s =
     (let t = js_trim s in
      t = [] \<or> unsigned_decimal_is_zero (strip_sign t) \<or> prefixed_literal_is_zero t)"

fun loose_eq_string :: "xp_value \<Rightarrow> string \<Rightarrow> bool" where
  \<comment> \<open>\<open>v == "..."\<close>\<close>
  "loose_eq_string X_undefined s = False"
| "loose_eq_string X_false s = string_to_number_is_zero s"
| "loose_eq_string (X_string t) s = (t = s)"

fun loose_eq_false :: "xp_value \<Rightarrow> bool" where
  \<comment> \<open>\<open>v == false\<close>\<close>
  "loose_eq_false X_undefined = False"
| "loose_eq_false X_false = True"
| "loose_eq_false (X_string t) = string_to_number_is_zero t"

fun truthy :: "xp_value \<Rightarrow> bool" where
  "truthy X_undefined = False"
| "truthy X_false = False"
| "truthy (X_string t) = (t \<noteq> [])"

fun property_key :: "xp_value \<Rightarrow> string" where
  \<comment> \<open>ToString of a value used as a property name: \<open>table[v]\<close>\<close>
  "property_key X_undefined = ''undefined''"
| "property_key X_false = ''false''"
| "property_key (X_string t) = t"

subsection \<open>Status snapshots\<close>

text \<open>
  The response of \<open>cjc.complete_status\<close>, the argument \<open>data\<close> of
  \<open>repopulate_fields\<close>. A field the code compares with \<open>undefined\<close> is \<open>None\<close> when
  it is \<open>undefined\<close> or \<open>null\<close> (both are \<open>== undefined\<close>). The fields printed by
  concatenation hold the text JavaScript's string concatenation gives for them; a job
  spec is opaque to this file and is kept as text. A \<open>status\<close> is handed to jQuery's
  \<open>.html\<close> as it is: \<open>.html(undefined)\<close> reads instead of writing and leaves the
  element alone, \<open>.html(null)\<close> empties it, and a text replaces its content.
\<close>

datatype html_arg = Html_undefined | Html_null | Html_text string

fun set_html :: "html_arg \<Rightarrow> string \<Rightarrow> string" where
  \<comment> \<open>the content of an element after \<open>.html(v)\<close>, from the content before\<close>
  "set_html Html_undefined old = old"
| "set_html Html_null old = ''''"
| "set_html (Html_text s) old = s"

type_synonym job_spec = string

record current_job_t =
  cj_status :: html_arg
  cj_remaining :: string
  cj_total :: string
  cj_voltage :: string
  cj_current :: string
  cj_seconds_left :: string
  cj_xp_id :: string
  cj_cjr_id :: "string option"

record staged_job_t =
  sj_status :: html_arg
  sj_voltage :: string
  sj_current :: string

record snapshot =
  xp_id :: "string option"
  current_job :: "current_job_t option"
  staged_job :: "staged_job_t option"
  queue :: "job_spec list option"

subsection \<open>Timers and issued calls\<close>

datatype timer_kind = Timeout | Interval

datatype timer_action = Act_repop_now | Act_remove_no_change_during_run

record timer =
  kind :: timer_kind
  delay :: nat
  action :: timer_action

datatype callback = Repopulate_fields | Repop_in_1_second

datatype queue_value = Queue_array "job_spec list" | Queue_json string

record payload =
  p_queue :: queue_value
  p_xp_id :: xp_value
  p_species :: "string option"

datatype js_arg = Arg_false | Arg_true | Arg_empty_object | Arg_payload payload

text \<open>
  One call of \<open>window.ff.celery_async\<close>: the method name, the callback (second
  argument) and the remaining arguments in the order the call site passes them.
  \<open>celery_async\<close> itself is defined outside this file.
\<close>

record call =
  method_name :: string
  callback :: callback
  args :: "js_arg list"

subsection \<open>The page and the globals\<close>

datatype li = Queue_placeholder | Job_item job_spec

record state =
  xp_id_attr :: "string option"
  xp_display_wrapper_display :: string
  no_change_during_run :: nat
  xp_select_wrapper_display :: string
  xp_id_header :: string
  capturejob_queue_wrapper_display :: string
  current_job_wrapper_display :: string
  current_job_status :: string
  current_job_remaining_total :: string
  current_job_psu_setting :: string
  current_job_seconds_left :: string
  current_job_slug :: string
  go_button_background_color :: string
  staged_job_wrapper_display :: string
  staged_job_status :: string
  staged_job_psu_setting :: string
  capture_job_queue :: "li list"
  push_queue_on_update :: "bool option"
  keep_job_in_queue :: "nat option"
  new_item :: "nat option"
  attrib_job_spec :: "string option"
  fishface_monitoring :: bool
  fishface_update_loop :: "nat option"
  xp_names :: "(string \<times> string) list"
  xp_species :: "(string \<times> string) list"
  timers :: "(nat \<times> timer) list"
  next_timer :: nat
  issued :: "call list"

text \<open>
  \<open>xp_id_attr\<close> is the attribute \<open>data-xp_id\<close> of \<open>#xp_display_wrapper\<close>
  (\<open>None\<close>: the attribute is missing); \<open>no_change_during_run\<close> counts the warning
  boxes appended to that element; \<open>capture_job_queue\<close> lists the children of
  \<open>#capture_job_queue\<close>; the \<open>..._display\<close> fields are CSS \<open>display\<close> values and the
  other text fields the \<open>html\<close> of the element of that id. \<open>push_queue_on_update\<close>,
  \<open>keep_job_in_queue\<close>, \<open>new_item\<close>, \<open>attrib_job_spec\<close>, \<open>xp_names\<close> and
  \<open>xp_species\<close> are the properties of \<open>window.ff\<close> (\<open>None\<close>: never assigned);
  \<open>fishface_monitoring\<close> and \<open>fishface_update_loop\<close> are properties of \<open>window\<close>.
  \<open>timers\<close> is the browser's list of active timers, \<open>next_timer\<close> the id the next
  \<open>setTimeout\<close> or \<open>setInterval\<close> returns (ids are never reused), and \<open>issued\<close>
  the calls of \<open>celery_async\<close> so far, oldest first.
\<close>

datatype js_error = TypeError

datatype outcome = Completed state | Raised js_error state

fun final_state :: "outcome \<Rightarrow> state" where
  "final_state (Completed st) = st"
| "final_state (Raised e st) = st"

fun completed :: "outcome \<Rightarrow> bool" where
  "completed (Completed st) = True"
| "completed (Raised e st) = False"

definition push_policy :: "state \<Rightarrow> bool" where
  \<comment> \<open>how the file reads the flag: \<open>== true\<close> (lines 240, 261) and truthiness (line 127)\<close>
  "push_policy st \<longleftrightarrow> push_queue_on_update st = Some True"

subsection \<open>Browser primitives\<close>

definition add_timer :: "timer_kind \<Rightarrow> nat \<Rightarrow> timer_action \<Rightarrow> state \<Rightarrow> state" where
  \<comment> \<open>\<open>window.setTimeout\<close> / \<open>window.setInterval\<close>; the id returned is \<open>next_timer st\<close>\<close>
  "add_timer k ms a st =
     st\<lparr>timers := timers st @ [(next_timer st, \<lparr>kind = k, delay = ms, action = a\<rparr>)],
        next_timer := Suc (next_timer st)\<rparr>"

definition clear_timer :: "nat option \<Rightarrow> state \<Rightarrow> state" where
  \<comment> \<open>\<open>clearInterval(h)\<close>; an \<open>undefined\<close> or unknown handle clears nothing\<close>
  "clear_timer h st =
     (case h of
        None \<Rightarrow> st
      | Some i \<Rightarrow> st\<lparr>timers := filter (\<lambda>p. fst p \<noteq> i) (timers st)\<rparr>)"

definition remove_queue_placeholder :: "li list \<Rightarrow> li list" where
  \<comment> \<open>\<open>$('#queue_placeholder').remove()\<close>: an id selector matches the first such element\<close>
  "remove_queue_placeholder q = remove1 Queue_placeholder q"

definition cjt_li_chunk_from_job_spec :: "job_spec \<Rightarrow> li" where
  \<comment> \<open>Modelled from the spec: \<open>cq_util.cjt_li_chunk_from_job_spec\<close> is defined outside this
      file; it builds the list item that renders one job spec of the queue.\<close>
  "cjt_li_chunk_from_job_spec j = Job_item j"

definition get_queue_array :: "state \<Rightarrow> job_spec list" where
  \<comment> \<open>Modelled from the spec: \<open>cq_util.get_queue_array\<close> is defined outside this file; it
      yields the entire working copy of the queue, the job items on the page in order.\<close>
  "get_queue_array st = concat (map (\<lambda>x. case x of Queue_placeholder \<Rightarrow> [] | Job_item j \<Rightarrow> [j]) (capture_job_queue st))"

definition no_jobs_placeholder :: "state \<Rightarrow> state" where
  \<comment> \<open>Modelled from the spec: \<open>cq_util.no_jobs_placeholder\<close> is defined outside this file;
      it shows the empty-queue placeholder when the working copy is empty.\<close>
  "no_jobs_placeholder st =
     (if get_queue_array st = [] then st\<lparr>capture_job_queue := [Queue_placeholder]\<rparr> else st)"

subsection \<open>Reading the experiment id (lines 80 to 99)\<close>

definition get_xp_id :: "state \<Rightarrow> xp_value" where
  "get_xp_id st =
     (let get_xp_id = (case xp_id_attr st of None \<Rightarrow> X_undefined | Some s \<Rightarrow> X_string s)
      in if loose_eq_string get_xp_id '''' then X_false else get_xp_id)"

text \<open>
  A missing entry of \<open>window.ff.xp_names\<close> is \<open>undefined\<close>, so \<open>.html\<close> leaves the
  header as it is.
\<close>

definition check_xp_id :: "state \<Rightarrow> xp_value \<times> state" where
  "check_xp_id st =
     (let check_xp_id = get_xp_id st in
      if \<not> loose_eq_string check_xp_id '''' \<and> \<not> loose_eq_string check_xp_id ''false''
      then (check_xp_id,
            st\<lparr>capturejob_queue_wrapper_display := ''block'',
               xp_id_header := (case map_of (xp_names st) (property_key check_xp_id) of
                                  None \<Rightarrow> xp_id_header st
                                | Some n \<Rightarrow> n),
               xp_display_wrapper_display := ''block'',
               xp_select_wrapper_display := ''none''\<rparr>)
      else (X_false,
            st\<lparr>capturejob_queue_wrapper_display := ''none'',
               xp_display_wrapper_display := ''none'',
               xp_select_wrapper_display := ''block''\<rparr>))"

subsection \<open>Polling (lines 142 to 187)\<close>

definition repop_now :: "state \<Rightarrow> state" where
  "repop_now st =
     st\<lparr>issued := issued st @
        [\<lparr>method_name = ''cjc.complete_status'', callback = Repopulate_fields,
          args = [Arg_empty_object, Arg_true]\<rparr>]\<rparr>"

definition repop_in_milliseconds :: "nat \<Rightarrow> state \<Rightarrow> state" where
  "repop_in_milliseconds msec st = add_timer Timeout msec Act_repop_now st"

definition repop_in_1_second :: "state \<Rightarrow> state" where
  "repop_in_1_second st = add_timer Timeout 1000 Act_repop_now st"

definition abort_all :: "state \<Rightarrow> state" where
  "abort_all st =
     st\<lparr>issued := issued st @
        [\<lparr>method_name = ''cjc.abort_all'', callback = Repop_in_1_second, args = []\<rparr>]\<rparr>"

definition start_periodic_monitor :: "state \<Rightarrow> state" where
  "start_periodic_monitor st =
     (if fishface_monitoring st = False
      then (add_timer Interval 500 Act_repop_now st)
             \<lparr>fishface_update_loop := Some (next_timer st), fishface_monitoring := True\<rparr>
      else st)"

definition stop_periodic_monitor :: "state \<Rightarrow> state" where
  "stop_periodic_monitor st =
     (clear_timer (fishface_update_loop st) st)\<lparr>fishface_monitoring := False\<rparr>"

subsection \<open>Applying a snapshot (lines 4 to 62)\<close>

definition adopt_xp_id :: "state \<Rightarrow> snapshot \<Rightarrow> state" where
  \<comment> \<open>lines 5 to 8\<close>
  "adopt_xp_id st d =
     (let temp_xp_id = xp_id d in
      if temp_xp_id \<noteq> None \<and> current_job d \<noteq> None then st\<lparr>xp_id_attr := temp_xp_id\<rparr> else st)"

definition render_current_job :: "state \<Rightarrow> snapshot \<Rightarrow> state" where
  \<comment> \<open>lines 15 to 35\<close>
  "render_current_job st d =
     (case current_job d of
        Some cj \<Rightarrow>
          start_periodic_monitor
            (st\<lparr>current_job_wrapper_display := ''block'',
                current_job_status := set_html (cj_status cj) (current_job_status st),
                current_job_remaining_total := cj_remaining cj @ ''/'' @ cj_total cj,
                current_job_psu_setting :=
                  cj_voltage cj @ ''V with a maximum of '' @ cj_current cj @ ''A'',
                current_job_seconds_left := cj_seconds_left cj,
                current_job_slug :=
                  (case cj_cjr_id cj of
                     None \<Rightarrow> ''''
                   | Some c \<Rightarrow> ''(XP_'' @ cj_xp_id cj @ ''_CJR_'' @ c @ '')''),
                push_queue_on_update := Some True\<rparr>)
      | None \<Rightarrow>
          (let st1 = st\<lparr>push_queue_on_update := Some False,
                         current_job_wrapper_display := ''none'',
                         go_button_background_color := ''''\<rparr>
           in if staged_job d = None then stop_periodic_monitor st1 else st1))"

definition render_staged_job :: "state \<Rightarrow> snapshot \<Rightarrow> state" where
  \<comment> \<open>lines 37 to 46\<close>
  "render_staged_job st d =
     (case staged_job d of
        Some sj \<Rightarrow>
          st\<lparr>staged_job_wrapper_display := ''block'',
             staged_job_status := set_html (sj_status sj) (staged_job_status st),
             staged_job_psu_setting :=
               sj_voltage sj @ ''V with a maximum of '' @ sj_current sj @ ''A''\<rparr>
      | None \<Rightarrow> st\<lparr>staged_job_wrapper_display := ''none''\<rparr>)"

definition render_queue :: "xp_value \<Rightarrow> state \<Rightarrow> snapshot \<Rightarrow> outcome" where
  \<comment> \<open>lines 48 to 59; \<open>data.queue.length\<close> is read first and throws when \<open>data.queue\<close>
      is \<open>undefined\<close> or \<open>null\<close>\<close>
  "render_queue repop_xp_id st d =
     (case queue d of
        None \<Rightarrow> Raised TypeError st
      | Some dq \<Rightarrow>
          if length dq > 0 \<and> truthy repop_xp_id
          then Completed
                 (st\<lparr>capture_job_queue :=
                      remove_queue_placeholder (map cjt_li_chunk_from_job_spec dq)\<rparr>)
          else Completed (st\<lparr>capture_job_queue := [Queue_placeholder]\<rparr>))"

definition repopulate_fields :: "state \<Rightarrow> snapshot \<Rightarrow> outcome" where
  "repopulate_fields st d =
     (let st1 = adopt_xp_id st d;
          (repop_xp_id, st2) = check_xp_id st1
      in if \<not> loose_eq_false repop_xp_id
         then render_queue repop_xp_id
                (render_staged_job
                   (render_current_job (st2\<lparr>capturejob_queue_wrapper_display := ''block''\<rparr>) d) d) d
         else Completed st2)"

text \<open>
  The guard of line 12, as a predicate of the state the snapshot is applied to: an
  experiment is selected once the snapshot's \<open>xp_id\<close> has been adopted.
\<close>

definition experiment_selected :: "state \<Rightarrow> snapshot \<Rightarrow> bool" where
  "experiment_selected st d \<longleftrightarrow> \<not> loose_eq_false (fst (check_xp_id (adopt_xp_id st d)))"

fun apply_all :: "state \<Rightarrow> snapshot list \<Rightarrow> state" where
  \<comment> \<open>a sequence of responses, each applied to the state the previous one left\<close>
  "apply_all st [] = st"
| "apply_all st (d # ds) = apply_all (final_state (repopulate_fields st d)) ds"

subsection \<open>Changing the experiment (lines 64 to 78 and 207 to 213)\<close>

definition change_experiment :: "state \<Rightarrow> state" where
  "change_experiment st =
     (if current_job_wrapper_display st = ''none''
      then snd (check_xp_id (st\<lparr>xp_id_attr := Some ''''\<rparr>))
      else add_timer Timeout 3000 Act_remove_no_change_during_run
             (st\<lparr>no_change_during_run := Suc (no_change_during_run st)\<rparr>))"

definition xp_select_form_submit :: "string \<Rightarrow> state \<Rightarrow> state" where
  \<comment> \<open>\<open>xp\<close> is the text jQuery stores for the number \<open>+$('input[name=xp]:checked').val()\<close>\<close>
  "xp_select_form_submit xp st =
     repop_now (snd (check_xp_id (st\<lparr>xp_id_attr := Some xp\<rparr>)))"

subsection \<open>Pushing and clearing the queue (lines 101 to 140)\<close>

definition array_ne_new_array :: "job_spec list \<Rightarrow> bool" where
  \<comment> \<open>\<open>queue_array != []\<close>: two distinct array objects are never loosely equal\<close>
  "array_ne_new_array queue_array = True"

definition push_entire_queue :: "state \<Rightarrow> state" where
  "push_entire_queue st =
     (let queue_array = get_queue_array st in
      if array_ne_new_array queue_array
      then (let xp_id = get_xp_id st in
            st\<lparr>issued := issued st @
               [\<lparr>method_name = ''cjc.set_queue'', callback = Repop_in_1_second,
                 args = [Arg_payload
                   \<lparr>p_queue = Queue_array queue_array, p_xp_id = xp_id,
                    p_species = map_of (xp_species st) (property_key xp_id)\<rparr>]\<rparr>]\<rparr>)
      else st)"

definition start_queue :: "state \<Rightarrow> state" where
  "start_queue st = push_entire_queue (st\<lparr>go_button_background_color := ''green''\<rparr>)"

definition clear_queue :: "state \<Rightarrow> state" where
  \<comment> \<open>\<open>JSON.stringify([])\<close> is the text \<open>[]\<close>\<close>
  "clear_queue st =
     (let xp_id = get_xp_id st in
      if push_queue_on_update st = Some True
      then st\<lparr>issued := issued st @
             [\<lparr>method_name = ''cjc.set_queue'', callback = Repop_in_1_second,
               args = [Arg_false,
                       Arg_payload
                         \<lparr>p_queue = Queue_json ''[]'', p_xp_id = xp_id,
                          p_species = map_of (xp_species st) (property_key xp_id)\<rparr>]\<rparr>]\<rparr>
      else st\<lparr>capture_job_queue := [Queue_placeholder]\<rparr>)"

subsection \<open>The sortable queue (lines 219 to 276)\<close>

text \<open>
  jQuery UI has moved the dragged item before it calls \<open>update\<close>, so the handler sees
  the working copy in its new order. \<open>sortable_beforeStop\<close> takes the position of
  \<open>ui.item\<close> among the children of the list (a position past the end: the item is not
  a child of the list) and the attribute read from \<open>ui.helper\<close>.
\<close>

definition sortable_start :: "state \<Rightarrow> state" where
  "sortable_start st = stop_periodic_monitor st"

definition sortable_over :: "state \<Rightarrow> state" where
  "sortable_over st = st\<lparr>keep_job_in_queue := Some 1\<rparr>"

definition sortable_out :: "state \<Rightarrow> state" where
  "sortable_out st = st\<lparr>keep_job_in_queue := Some 0\<rparr>"

definition push_on_edit :: "state \<Rightarrow> state" where
  \<comment> \<open>lines 240 to 244 and 261 to 265, the same three calls\<close>
  "push_on_edit st =
     (if push_queue_on_update st = Some True
      then start_periodic_monitor (repop_now (push_entire_queue st))
      else st)"

definition sortable_update :: "state \<Rightarrow> state" where
  "sortable_update st =
     no_jobs_placeholder
       (push_on_edit (st\<lparr>capture_job_queue := remove_queue_placeholder (capture_job_queue st)\<rparr>))"

definition remove_item :: "nat \<Rightarrow> li list \<Rightarrow> li list" where
  \<comment> \<open>\<open>ui.item.remove()\<close>\<close>
  "remove_item i q = take i q @ drop (Suc i) q"

definition sortable_beforeStop :: "nat \<Rightarrow> string option \<Rightarrow> state \<Rightarrow> state" where
  "sortable_beforeStop item helper_attr st =
     (if keep_job_in_queue st = Some 0
      then (let st1 = st\<lparr>capture_job_queue := remove_item item (capture_job_queue st)\<rparr>;
                st2 = (if length (get_queue_array st1) = 0 then no_jobs_placeholder st1 else st1)
            in push_on_edit st2)
      else st\<lparr>new_item := Some item, attrib_job_spec := helper_attr\<rparr>)"

text \<open>
  The end of a drag, as jQuery UI runs it: the dragged item already stands at the drop
  position when the handlers are called; \<open>beforeStop\<close> is called first and \<open>update\<close>
  after it, when the position of the item among its siblings has changed (\<open>moved\<close>).
  The handlers \<open>receive\<close>, \<open>out\<close> and \<open>stop\<close>, which may follow, issue no call and touch
  no timer.
\<close>

definition sortable_drop :: "nat \<Rightarrow> string option \<Rightarrow> bool \<Rightarrow> state \<Rightarrow> state" where
  "sortable_drop item helper_attr moved st =
     (let st1 = sortable_beforeStop item helper_attr st
      in if moved then sortable_update st1 else st1)"

definition monitor_state :: "state \<Rightarrow> bool \<times> nat option \<times> (nat \<times> timer) list \<times> nat" where
  \<comment> \<open>what the poll scheduler owns: the flag, the interval handle, the active timers and
      the next timer id\<close>
  "monitor_state st =
     (fishface_monitoring st, fishface_update_loop st, timers st, next_timer st)"

subsection \<open>Timers firing and the start of the page\<close>

definition run_action :: "timer_action \<Rightarrow> state \<Rightarrow> state" where
  "run_action a st =
     (case a of
        Act_repop_now \<Rightarrow> repop_now st
      | Act_remove_no_change_during_run \<Rightarrow>
          (if no_change_during_run st > 0
           then st\<lparr>no_change_during_run := no_change_during_run st - 1\<rparr> else st))"

definition fire_timer :: "nat \<Rightarrow> state \<Rightarrow> state" where
  \<comment> \<open>the browser runs the timer of this id: a timeout leaves the list, an interval stays\<close>
  "fire_timer i st =
     (case map_of (timers st) i of
        None \<Rightarrow> st
      | Some t \<Rightarrow>
          run_action (action t)
            (if kind t = Timeout then st\<lparr>timers := filter (\<lambda>p. fst p \<noteq> i) (timers st)\<rparr> else st))"

definition document_ready :: "state \<Rightarrow> state" where
  \<comment> \<open>lines 279 to 283: the page as loaded, with no timer and no call yet\<close>
  "document_ready st =
     repop_now (st\<lparr>fishface_monitoring := False, fishface_update_loop := None,
                    timers := [], next_timer := 1, issued := []\<rparr>)"

definition timers_fresh :: "state \<Rightarrow> bool" where
  \<comment> \<open>every active timer's id was handed out before \<open>next_timer\<close>\<close>
  "timers_fresh st \<longleftrightarrow> list_all (\<lambda>p. fst p < next_timer st) (timers st)"

subsection \<open>Example pages and snapshots\<close>

definition polling_intervals :: "state \<Rightarrow> (nat \<times> timer) list" where
  "polling_intervals st = filter (\<lambda>p. kind (snd p) = Interval) (timers st)"

definition new_calls :: "state \<Rightarrow> state \<Rightarrow> call list" where
  \<comment> \<open>the calls issued between an earlier and a later state\<close>
  "new_calls st st' = drop (length (issued st)) (issued st')"

definition page_unselected :: state where
  \<comment> \<open>the page with no experiment selected and nothing rendered yet\<close>
  "page_unselected =
     \<lparr>xp_id_attr = Some '''', xp_display_wrapper_display = ''none'', no_change_during_run = 0,
      xp_select_wrapper_display = ''block'', xp_id_header = '''',
      capturejob_queue_wrapper_display = ''none'', current_job_wrapper_display = ''none'',
      current_job_status = '''', current_job_remaining_total = '''', current_job_psu_setting = '''',
      current_job_seconds_left = '''', current_job_slug = '''', go_button_background_color = '''',
      staged_job_wrapper_display = ''none'', staged_job_status = '''', staged_job_psu_setting = '''',
      capture_job_queue = [Job_item ''spec_a''],
      push_queue_on_update = Some False, keep_job_in_queue = None, new_item = None,
      attrib_job_spec = None, fishface_monitoring = False, fishface_update_loop = None,
      xp_names = [(''3'', ''Pilot'')], xp_species = [(''3'', ''HSB'')],
      timers = [], next_timer = 1, issued = []\<rparr>"

definition page_selected :: state where
  \<comment> \<open>the same page with experiment 3 selected\<close>
  "page_selected =
     page_unselected\<lparr>xp_id_attr := Some ''3'', xp_display_wrapper_display := ''block'',
       xp_select_wrapper_display := ''none'', capturejob_queue_wrapper_display := ''block'',
       xp_id_header := ''Pilot''\<rparr>"

definition running_job :: current_job_t where
  "running_job =
     \<lparr>cj_status = Html_text ''running'', cj_remaining = ''3'', cj_total = ''10'', cj_voltage = ''5'',
      cj_current = ''2'', cj_seconds_left = ''42'', cj_xp_id = ''3'', cj_cjr_id = Some ''7''\<rparr>"

definition snapshot_running :: snapshot where
  "snapshot_running =
     \<lparr>xp_id = Some ''3'', current_job = Some running_job, staged_job = None,
      queue = Some [''spec_b'', ''spec_c'']\<rparr>"

definition snapshot_running_no_xp_id :: snapshot where
  \<comment> \<open>a response with a current job and without the field \<open>xp_id\<close>\<close>
  "snapshot_running_no_xp_id = snapshot_running\<lparr>xp_id := None\<rparr>"

definition snapshot_idle :: snapshot where
  "snapshot_idle = \<lparr>xp_id = Some ''3'', current_job = None, staged_job = None, queue = Some []\<rparr>"

definition snapshot_no_queue :: snapshot where
  \<comment> \<open>a response without the field \<open>queue\<close>\<close>
  "snapshot_no_queue = \<lparr>xp_id = Some ''3'', current_job = None, staged_job = None, queue = None\<rparr>"

definition page_reordered :: state where
  \<comment> \<open>experiment 3 selected, a job running, and the queue \<open>[A, B, C]\<close> after \<open>A\<close> was dragged to the end\<close>
  "page_reordered =
     page_selected\<lparr>push_queue_on_update := Some True, current_job_wrapper_display := ''block'',
       capture_job_queue := [Job_item ''B'', Job_item ''C'', Job_item ''A'']\<rparr>"

definition run_callback :: "callback \<Rightarrow> snapshot \<Rightarrow> state \<Rightarrow> outcome" where
  \<comment> \<open>Modelled from the spec: \<open>window.ff.celery_async\<close> is defined outside this file; when
      a call completes it hands the response to the callback, its second argument.\<close>
  "run_callback cb d st =
     (case cb of
        Repopulate_fields \<Rightarrow> repopulate_fields st d
      | Repop_in_1_second \<Rightarrow> Completed (repop_in_1_second st))"

text \<open>The two calls as their call sites build them, for stating what a handler issued.\<close>

definition status_call :: call where
  \<comment> \<open>line 156\<close>
  "status_call =
     \<lparr>method_name = ''cjc.complete_status'', callback = Repopulate_fields,
      args = [Arg_empty_object, Arg_true]\<rparr>"

definition set_queue_call :: "state \<Rightarrow> call" where
  \<comment> \<open>lines 112 to 120, for the working copy and the experiment of the page \<open>st\<close>\<close>
  "set_queue_call st =
     \<lparr>method_name = ''cjc.set_queue'', callback = Repop_in_1_second,
      args = [Arg_payload
        \<lparr>p_queue = Queue_array (get_queue_array st), p_xp_id = get_xp_id st,
         p_species = map_of (xp_species st) (property_key (get_xp_id st))\<rparr>]\<rparr>"

section \<open>Properties\<close>

subsection \<open>Shared lemmas\<close>

lemma string_to_number_is_zero_empty: "string_to_number_is_zero ''''"
  by (simp add: string_to_number_is_zero_def js_trim_def)

lemma string_to_number_is_zero_false: "\<not> string_to_number_is_zero ''false''"
  by code_simp

lemma apply_all_snoc:
  "apply_all st (ds @ [d]) = final_state (repopulate_fields (apply_all st ds) d)"
  by (induction ds arbitrary: st) simp_all

lemma repopulate_fields_unfold:
  "repopulate_fields st d =
     (if experiment_selected st d
      then render_queue (fst (check_xp_id (adopt_xp_id st d)))
             (render_staged_job
                (render_current_job
                   ((snd (check_xp_id (adopt_xp_id st d)))
                      \<lparr>capturejob_queue_wrapper_display := ''block''\<rparr>) d) d) d
      else Completed (snd (check_xp_id (adopt_xp_id st d))))"
  by (simp add: repopulate_fields_def experiment_selected_def Let_def split: prod.splits)

text \<open>What each step of \<open>repopulate_fields\<close> leaves alone.\<close>

lemma adopt_xp_id_frame:
  "push_queue_on_update (adopt_xp_id st d) = push_queue_on_update st"
  "fishface_monitoring (adopt_xp_id st d) = fishface_monitoring st"
  "fishface_update_loop (adopt_xp_id st d) = fishface_update_loop st"
  "timers (adopt_xp_id st d) = timers st"
  "next_timer (adopt_xp_id st d) = next_timer st"
  "issued (adopt_xp_id st d) = issued st"
  "capture_job_queue (adopt_xp_id st d) = capture_job_queue st"
  "current_job_wrapper_display (adopt_xp_id st d) = current_job_wrapper_display st"
  "current_job_status (adopt_xp_id st d) = current_job_status st"
  "staged_job_status (adopt_xp_id st d) = staged_job_status st"
  by (simp_all add: adopt_xp_id_def Let_def)

lemma xp_id_attr_adopt:
  "xp_id_attr (adopt_xp_id st d) =
     (if xp_id d \<noteq> None \<and> current_job d \<noteq> None then xp_id d else xp_id_attr st)"
  by (simp add: adopt_xp_id_def Let_def)

lemma check_xp_id_frame:
  "xp_id_attr (snd (check_xp_id st)) = xp_id_attr st"
  "push_queue_on_update (snd (check_xp_id st)) = push_queue_on_update st"
  "fishface_monitoring (snd (check_xp_id st)) = fishface_monitoring st"
  "fishface_update_loop (snd (check_xp_id st)) = fishface_update_loop st"
  "timers (snd (check_xp_id st)) = timers st"
  "next_timer (snd (check_xp_id st)) = next_timer st"
  "issued (snd (check_xp_id st)) = issued st"
  "capture_job_queue (snd (check_xp_id st)) = capture_job_queue st"
  "current_job_wrapper_display (snd (check_xp_id st)) = current_job_wrapper_display st"
  "no_change_during_run (snd (check_xp_id st)) = no_change_during_run st"
  by (simp_all add: check_xp_id_def Let_def)

lemma start_periodic_monitor_frame:
  "xp_id_attr (start_periodic_monitor st) = xp_id_attr st"
  "push_queue_on_update (start_periodic_monitor st) = push_queue_on_update st"
  "issued (start_periodic_monitor st) = issued st"
  "capture_job_queue (start_periodic_monitor st) = capture_job_queue st"
  "current_job_wrapper_display (start_periodic_monitor st) = current_job_wrapper_display st"
  by (simp_all add: start_periodic_monitor_def add_timer_def)

lemma stop_periodic_monitor_frame:
  "xp_id_attr (stop_periodic_monitor st) = xp_id_attr st"
  "push_queue_on_update (stop_periodic_monitor st) = push_queue_on_update st"
  "issued (stop_periodic_monitor st) = issued st"
  "capture_job_queue (stop_periodic_monitor st) = capture_job_queue st"
  "current_job_wrapper_display (stop_periodic_monitor st) = current_job_wrapper_display st"
  by (simp_all add: stop_periodic_monitor_def clear_timer_def split: option.splits)

lemma start_periodic_monitor_monitoring: "fishface_monitoring (start_periodic_monitor st)"
  by (simp add: start_periodic_monitor_def add_timer_def)

lemma stop_periodic_monitor_monitoring: "\<not> fishface_monitoring (stop_periodic_monitor st)"
  by (simp add: stop_periodic_monitor_def)

lemma render_current_job_frame:
  "xp_id_attr (render_current_job st d) = xp_id_attr st"
  "issued (render_current_job st d) = issued st"
  "capture_job_queue (render_current_job st d) = capture_job_queue st"
  by (simp_all add: render_current_job_def Let_def start_periodic_monitor_frame
        stop_periodic_monitor_frame split: option.splits)

lemma render_current_job_push:
  "push_queue_on_update (render_current_job st d) = Some (current_job d \<noteq> None)"
  by (simp add: render_current_job_def Let_def start_periodic_monitor_frame
        stop_periodic_monitor_frame split: option.splits)

lemma render_current_job_display:
  "current_job_wrapper_display (render_current_job st d) =
     (if current_job d \<noteq> None then ''block'' else ''none'')"
  by (simp add: render_current_job_def Let_def start_periodic_monitor_frame
        stop_periodic_monitor_frame split: option.splits)

lemma start_periodic_monitor_cong:
  "fishface_monitoring st1 = fishface_monitoring st2 \<Longrightarrow> timers st1 = timers st2 \<Longrightarrow>
   next_timer st1 = next_timer st2 \<Longrightarrow>
   timers (start_periodic_monitor st1) = timers (start_periodic_monitor st2)"
  by (simp add: start_periodic_monitor_def add_timer_def)

lemma stop_periodic_monitor_cong:
  "fishface_update_loop st1 = fishface_update_loop st2 \<Longrightarrow> timers st1 = timers st2 \<Longrightarrow>
   timers (stop_periodic_monitor st1) = timers (stop_periodic_monitor st2)"
  by (simp add: stop_periodic_monitor_def clear_timer_def split: option.splits)

lemma render_current_job_monitor:
  "current_job d \<noteq> None \<Longrightarrow> fishface_monitoring (render_current_job st d)"
  "current_job d \<noteq> None \<Longrightarrow>
     timers (render_current_job st d) = timers (start_periodic_monitor st)"
  "current_job d = None \<Longrightarrow> staged_job d = None \<Longrightarrow> \<not> fishface_monitoring (render_current_job st d)"
  "current_job d = None \<Longrightarrow> staged_job d = None \<Longrightarrow>
     timers (render_current_job st d) = timers (stop_periodic_monitor st)"
proof -
  show "current_job d \<noteq> None \<Longrightarrow> fishface_monitoring (render_current_job st d)"
    by (auto simp: render_current_job_def start_periodic_monitor_monitoring)
  show "current_job d \<noteq> None \<Longrightarrow>
     timers (render_current_job st d) = timers (start_periodic_monitor st)"
    by (auto simp: render_current_job_def intro!: start_periodic_monitor_cong)
  show "current_job d = None \<Longrightarrow> staged_job d = None \<Longrightarrow> \<not> fishface_monitoring (render_current_job st d)"
    by (simp add: render_current_job_def Let_def stop_periodic_monitor_monitoring)
  show "current_job d = None \<Longrightarrow> staged_job d = None \<Longrightarrow>
     timers (render_current_job st d) = timers (stop_periodic_monitor st)"
    by (auto simp: render_current_job_def Let_def intro!: stop_periodic_monitor_cong)
qed

lemma render_staged_job_frame:
  "xp_id_attr (render_staged_job st d) = xp_id_attr st"
  "push_queue_on_update (render_staged_job st d) = push_queue_on_update st"
  "fishface_monitoring (render_staged_job st d) = fishface_monitoring st"
  "timers (render_staged_job st d) = timers st"
  "issued (render_staged_job st d) = issued st"
  "capture_job_queue (render_staged_job st d) = capture_job_queue st"
  "current_job_wrapper_display (render_staged_job st d) = current_job_wrapper_display st"
  by (simp_all add: render_staged_job_def split: option.splits)

lemma render_queue_frame:
  "xp_id_attr (final_state (render_queue v st d)) = xp_id_attr st"
  "push_queue_on_update (final_state (render_queue v st d)) = push_queue_on_update st"
  "fishface_monitoring (final_state (render_queue v st d)) = fishface_monitoring st"
  "timers (final_state (render_queue v st d)) = timers st"
  "issued (final_state (render_queue v st d)) = issued st"
  "current_job_wrapper_display (final_state (render_queue v st d)) = current_job_wrapper_display st"
  by (simp_all add: render_queue_def split: option.splits)

lemma render_queue_completed: "completed (render_queue v st d) = (queue d \<noteq> None)"
  by (simp add: render_queue_def split: option.splits)

lemma render_queue_empty:
  "queue d = Some [] \<Longrightarrow> capture_job_queue (final_state (render_queue v st d)) = [Queue_placeholder]"
  by (simp add: render_queue_def)

text \<open>A timer added with a fresh id is the one the browser finds under that id.\<close>

lemma map_of_fresh:
  "list_all (\<lambda>p. fst p < (n::nat)) xs \<Longrightarrow> map_of (xs @ [(n, t)]) n = Some t"
  by (induction xs) auto

lemma filter_fresh:
  "list_all (\<lambda>p. fst p < (n::nat)) xs \<Longrightarrow> filter (\<lambda>p. fst p \<noteq> n) (xs @ [(n, t)]) = xs"
  by (induction xs) auto

lemma get_queue_array_remove_placeholder:
  "get_queue_array (st\<lparr>capture_job_queue := remove_queue_placeholder (capture_job_queue st)\<rparr>) =
   get_queue_array st"
proof -
  have "concat (map (\<lambda>x. case x of Queue_placeholder \<Rightarrow> [] | Job_item j \<Rightarrow> [j]) (remove1 Queue_placeholder q)) =
        concat (map (\<lambda>x. case x of Queue_placeholder \<Rightarrow> [] | Job_item j \<Rightarrow> [j]) q)" for q
    by (induction q) auto
  then show ?thesis
    by (simp add: get_queue_array_def remove_queue_placeholder_def)
qed

text \<open>
  Fresh timer ids: the page starts with no timer, and the two primitives through which
  the file touches the timer list keep every active id below \<open>next_timer\<close>.
\<close>

lemma timers_fresh_document_ready: "timers_fresh (document_ready st)"
  by (simp add: timers_fresh_def document_ready_def repop_now_def)

lemma timers_fresh_add_timer: "timers_fresh st \<Longrightarrow> timers_fresh (add_timer k ms a st)"
  by (auto simp: timers_fresh_def add_timer_def list_all_iff)

lemma timers_fresh_clear_timer: "timers_fresh st \<Longrightarrow> timers_fresh (clear_timer h st)"
  by (auto simp: timers_fresh_def clear_timer_def list_all_iff split: option.splits)

lemma timers_fresh_monitor:
  "timers_fresh st \<Longrightarrow> timers_fresh (start_periodic_monitor st)"
  "timers_fresh st \<Longrightarrow> timers_fresh (stop_periodic_monitor st)"
  by (auto simp: timers_fresh_def start_periodic_monitor_def stop_periodic_monitor_def
        add_timer_def clear_timer_def list_all_iff split: option.splits)

subsection \<open>Applying snapshots\<close>

text \<open>
  Claim C1, as the code has it: after every call of a sequence of \<open>apply(snapshot)\<close> calls
  at which an experiment is selected (the guard of line 12 passes), PushPolicy
  (\<open>window.ff.push_queue_on_update\<close>) equals whether that very snapshot has a
  \<open>current_job\<close>, whatever the earlier snapshots were and also when the call raises.
\<close>

theorem push_policy_recomputed_when_selected:
  "experiment_selected (apply_all st ds) d \<Longrightarrow>
     push_queue_on_update (apply_all st (ds @ [d])) = Some (current_job d \<noteq> None)
     \<and> push_policy (apply_all st (ds @ [d])) = (current_job d \<noteq> None)"
  by (simp add: apply_all_snoc repopulate_fields_unfold push_policy_def render_queue_frame
        render_staged_job_frame render_current_job_push)

theorem push_policy_recomputed_when_selected_witness:
  "experiment_selected (apply_all page_selected [snapshot_running]) snapshot_idle
   \<and> push_policy (apply_all page_selected [snapshot_running])
   \<and> \<not> push_policy (apply_all page_selected ([snapshot_running] @ [snapshot_idle]))"
proof -
  have h: "experiment_selected (apply_all page_selected [snapshot_running]) snapshot_idle"
    by code_simp
  have p: "push_policy (apply_all page_selected [snapshot_running])"
    by code_simp
  from push_policy_recomputed_when_selected [OF h]
  have "\<not> push_policy (apply_all page_selected ([snapshot_running] @ [snapshot_idle]))"
    by (simp add: snapshot_idle_def)
  with h p show ?thesis by simp
qed

text \<open>
  Claim C1 as stated fails: with no experiment selected, a snapshot that has a
  \<open>current_job\<close> and no \<open>xp_id\<close> leaves PushPolicy false.
\<close>

theorem push_policy_stale_when_unselected:
  "push_policy (apply_all page_unselected [snapshot_running_no_xp_id])
     \<noteq> (current_job snapshot_running_no_xp_id \<noteq> None)"
  by code_simp

text \<open>
  Claim C5, as the code has it: when an experiment is selected, a snapshot with a
  \<open>current_job\<close> leaves the recurring monitor armed, exactly as
  \<open>start_periodic_monitor\<close> would, and a snapshot with neither \<open>current_job\<close> nor
  \<open>staged_job\<close> leaves it disarmed, exactly as \<open>stop_periodic_monitor\<close> would.
\<close>

theorem monitor_follows_snapshot_when_selected:
  "experiment_selected st d \<Longrightarrow>
     (current_job d \<noteq> None \<longrightarrow>
        fishface_monitoring (final_state (repopulate_fields st d))
        \<and> timers (final_state (repopulate_fields st d)) = timers (start_periodic_monitor st))
     \<and> (current_job d = None \<and> staged_job d = None \<longrightarrow>
        \<not> fishface_monitoring (final_state (repopulate_fields st d))
        \<and> timers (final_state (repopulate_fields st d)) = timers (stop_periodic_monitor st))"
proof (intro conjI impI)
  let ?s = "(snd (check_xp_id (adopt_xp_id st d)))\<lparr>capturejob_queue_wrapper_display := ''block''\<rparr>"
  assume sel: "experiment_selected st d"
  have fin: "fishface_monitoring (final_state (repopulate_fields st d)) =
               fishface_monitoring (render_current_job ?s d)"
            "timers (final_state (repopulate_fields st d)) = timers (render_current_job ?s d)"
    using sel by (simp_all add: repopulate_fields_unfold render_queue_frame render_staged_job_frame)
  have start: "timers (start_periodic_monitor ?s) = timers (start_periodic_monitor st)"
    by (rule start_periodic_monitor_cong) (simp_all add: check_xp_id_frame adopt_xp_id_frame)
  have stop: "timers (stop_periodic_monitor ?s) = timers (stop_periodic_monitor st)"
    by (rule stop_periodic_monitor_cong) (simp_all add: check_xp_id_frame adopt_xp_id_frame)
  {
    assume cj: "current_job d \<noteq> None"
    show "fishface_monitoring (final_state (repopulate_fields st d))"
      using cj fin render_current_job_monitor(1) by simp
    show "timers (final_state (repopulate_fields st d)) = timers (start_periodic_monitor st)"
      using cj fin start render_current_job_monitor(2) by simp
  }
  {
    assume no: "current_job d = None \<and> staged_job d = None"
    show "\<not> fishface_monitoring (final_state (repopulate_fields st d))"
      using no fin render_current_job_monitor(3) by simp
    show "timers (final_state (repopulate_fields st d)) = timers (stop_periodic_monitor st)"
      using no fin stop render_current_job_monitor(4) by simp
  }
qed

theorem monitor_follows_snapshot_when_selected_witness:
  "experiment_selected page_selected snapshot_running
   \<and> fishface_monitoring (final_state (repopulate_fields page_selected snapshot_running))
   \<and> experiment_selected (start_periodic_monitor page_selected) snapshot_idle
   \<and> \<not> fishface_monitoring
         (final_state (repopulate_fields (start_periodic_monitor page_selected) snapshot_idle))
   \<and> timers (final_state (repopulate_fields (start_periodic_monitor page_selected) snapshot_idle)) = []"
proof -
  have h1: "experiment_selected page_selected snapshot_running"
    by code_simp
  have h2: "experiment_selected (start_periodic_monitor page_selected) snapshot_idle"
    by code_simp
  have t: "timers (stop_periodic_monitor (start_periodic_monitor page_selected)) = []"
    by code_simp
  from monitor_follows_snapshot_when_selected [OF h1]
  have a: "fishface_monitoring (final_state (repopulate_fields page_selected snapshot_running))"
    by (simp add: snapshot_running_def)
  from monitor_follows_snapshot_when_selected [OF h2]
  have b: "\<not> fishface_monitoring
         (final_state (repopulate_fields (start_periodic_monitor page_selected) snapshot_idle))
     \<and> timers (final_state (repopulate_fields (start_periodic_monitor page_selected) snapshot_idle)) =
         timers (stop_periodic_monitor (start_periodic_monitor page_selected))"
    by (simp add: snapshot_idle_def)
  from h1 h2 a b t show ?thesis by simp
qed

text \<open>
  Claim C5 as stated fails: with no experiment selected and the monitor started from its
  button, a snapshot with neither \<open>current_job\<close> nor \<open>staged_job\<close> leaves it armed.
\<close>

theorem monitor_kept_when_unselected:
  "current_job snapshot_idle = None \<and> staged_job snapshot_idle = None
   \<and> fishface_monitoring
       (final_state (repopulate_fields (start_periodic_monitor page_unselected) snapshot_idle))"
  by code_simp

text \<open>
  Claim C3, as the code has it: \<open>apply(snapshot)\<close> completes without error for every
  snapshot that has a \<open>queue\<close>, and for every snapshot when no experiment is selected;
  for a snapshot whose queue is the empty array, applied with an experiment selected, the
  rendered queue is the empty-queue placeholder.
\<close>

theorem apply_completes_with_queue:
  "(queue d \<noteq> None \<or> \<not> experiment_selected st d \<longrightarrow> completed (repopulate_fields st d))
   \<and> (experiment_selected st d \<and> queue d = Some [] \<longrightarrow>
        capture_job_queue (final_state (repopulate_fields st d)) = [Queue_placeholder])"
  by (auto simp: repopulate_fields_unfold render_queue_completed render_queue_empty)

theorem apply_completes_with_queue_witness:
  "experiment_selected page_selected snapshot_idle \<and> queue snapshot_idle = Some []
   \<and> completed (repopulate_fields page_selected snapshot_idle)
   \<and> capture_job_queue (final_state (repopulate_fields page_selected snapshot_idle)) = [Queue_placeholder]
   \<and> \<not> experiment_selected page_unselected snapshot_no_queue
   \<and> completed (repopulate_fields page_unselected snapshot_no_queue)"
proof -
  have h: "experiment_selected page_selected snapshot_idle \<and> queue snapshot_idle = Some []
           \<and> \<not> experiment_selected page_unselected snapshot_no_queue"
    by code_simp
  with apply_completes_with_queue [of snapshot_idle page_selected]
       apply_completes_with_queue [of snapshot_no_queue page_unselected]
  show ?thesis by simp
qed

text \<open>
  Claim C3 as stated fails: a snapshot without \<open>queue\<close>, applied with an experiment
  selected, raises; and with no experiment selected an empty queue leaves the rendered
  queue as it was, not the placeholder.
\<close>

theorem apply_raises_on_missing_queue:
  "\<not> completed (repopulate_fields page_selected snapshot_no_queue)
   \<and> repopulate_fields page_selected snapshot_no_queue =
       Raised TypeError (final_state (repopulate_fields page_selected snapshot_no_queue))
   \<and> queue snapshot_idle = Some []
   \<and> capture_job_queue (final_state (repopulate_fields page_unselected snapshot_idle)) =
       [Job_item ''spec_a'']"
  by code_simp

text \<open>
  Claim C9, as the code has it: when the stored experiment id, after lines 5 to 8 have
  adopted the snapshot's \<open>xp_id\<close>, is the empty or the \<open>false\<close> sentinel,
  \<open>apply(snapshot)\<close> only shows the experiment selector: PushPolicy, the recurring
  monitor, its timers and every rendered job and queue element stay as they were.
\<close>

theorem unselected_apply_renders_nothing:
  "xp_id_attr (adopt_xp_id st d) = Some '''' \<or> xp_id_attr (adopt_xp_id st d) = Some ''false'' \<Longrightarrow>
     repopulate_fields st d =
       Completed ((adopt_xp_id st d)
         \<lparr>capturejob_queue_wrapper_display := ''none'',
          xp_display_wrapper_display := ''none'',
          xp_select_wrapper_display := ''block''\<rparr>)
     \<and> push_queue_on_update (final_state (repopulate_fields st d)) = push_queue_on_update st
     \<and> fishface_monitoring (final_state (repopulate_fields st d)) = fishface_monitoring st
     \<and> timers (final_state (repopulate_fields st d)) = timers st
     \<and> issued (final_state (repopulate_fields st d)) = issued st
     \<and> capture_job_queue (final_state (repopulate_fields st d)) = capture_job_queue st
     \<and> current_job_wrapper_display (final_state (repopulate_fields st d)) =
         current_job_wrapper_display st
     \<and> current_job_status (final_state (repopulate_fields st d)) = current_job_status st
     \<and> staged_job_status (final_state (repopulate_fields st d)) = staged_job_status st"
proof -
  assume a: "xp_id_attr (adopt_xp_id st d) = Some '''' \<or> xp_id_attr (adopt_xp_id st d) = Some ''false''"
  have chk: "check_xp_id (adopt_xp_id st d) =
               (X_false, (adopt_xp_id st d)
                  \<lparr>capturejob_queue_wrapper_display := ''none'',
                   xp_display_wrapper_display := ''none'',
                   xp_select_wrapper_display := ''block''\<rparr>)"
    using a
    by (auto simp: check_xp_id_def get_xp_id_def Let_def string_to_number_is_zero_empty)
  then have eq: "repopulate_fields st d =
       Completed ((adopt_xp_id st d)
         \<lparr>capturejob_queue_wrapper_display := ''none'',
          xp_display_wrapper_display := ''none'',
          xp_select_wrapper_display := ''block''\<rparr>)"
    by (simp add: repopulate_fields_def Let_def)
  show ?thesis
    unfolding eq by (simp add: adopt_xp_id_frame)
qed

theorem unselected_apply_renders_nothing_witness:
  "xp_id_attr (adopt_xp_id page_unselected snapshot_running_no_xp_id) = Some ''''
   \<and> current_job snapshot_running_no_xp_id \<noteq> None
   \<and> push_queue_on_update (final_state (repopulate_fields page_unselected snapshot_running_no_xp_id)) =
       Some False
   \<and> \<not> fishface_monitoring (final_state (repopulate_fields page_unselected snapshot_running_no_xp_id))
   \<and> capture_job_queue (final_state (repopulate_fields page_unselected snapshot_running_no_xp_id)) =
       [Job_item ''spec_a'']"
proof -
  have h: "xp_id_attr (adopt_xp_id page_unselected snapshot_running_no_xp_id) = Some ''''"
    by code_simp
  have c: "current_job snapshot_running_no_xp_id \<noteq> None"
    by code_simp
  have v1: "push_queue_on_update page_unselected = Some False"
    by code_simp
  have v2: "\<not> fishface_monitoring page_unselected"
    by code_simp
  have v3: "capture_job_queue page_unselected = [Job_item ''spec_a'']"
    by code_simp
  have "xp_id_attr (adopt_xp_id page_unselected snapshot_running_no_xp_id) = Some ''''
        \<or> xp_id_attr (adopt_xp_id page_unselected snapshot_running_no_xp_id) = Some ''false''"
    using h by simp
  from unselected_apply_renders_nothing [OF this]
  have "push_queue_on_update (final_state (repopulate_fields page_unselected snapshot_running_no_xp_id)) =
          push_queue_on_update page_unselected
        \<and> fishface_monitoring (final_state (repopulate_fields page_unselected snapshot_running_no_xp_id)) =
          fishface_monitoring page_unselected
        \<and> capture_job_queue (final_state (repopulate_fields page_unselected snapshot_running_no_xp_id)) =
          capture_job_queue page_unselected"
    by blast
  with h c v1 v2 v3 show ?thesis by simp
qed

text \<open>
  Claim C9 as stated fails: with the empty sentinel stored, a snapshot that has both an
  \<open>xp_id\<close> and a \<open>current_job\<close> selects that experiment, sets PushPolicy and arms the
  monitor.
\<close>

theorem unselected_apply_adopts_running_experiment:
  "xp_id_attr page_unselected = Some ''''
   \<and> push_queue_on_update page_unselected = Some False
   \<and> push_queue_on_update (final_state (repopulate_fields page_unselected snapshot_running)) = Some True
   \<and> \<not> fishface_monitoring page_unselected
   \<and> fishface_monitoring (final_state (repopulate_fields page_unselected snapshot_running))
   \<and> capture_job_queue (final_state (repopulate_fields page_unselected snapshot_running)) =
       [Job_item ''spec_b'', Job_item ''spec_c'']"
  by code_simp

text \<open>
  Claim C10: \<open>apply(snapshot)\<close> writes the stored experiment id only when the snapshot
  has both an \<open>xp_id\<close> and a \<open>current_job\<close>, and then stores that \<open>xp_id\<close>; a snapshot
  with an \<open>xp_id\<close> and no \<open>current_job\<close> leaves the stored id unchanged.
\<close>

theorem xp_id_adopted_only_with_current_job:
  "(current_job d = None \<longrightarrow> xp_id_attr (final_state (repopulate_fields st d)) = xp_id_attr st)
   \<and> (xp_id d = None \<longrightarrow> xp_id_attr (final_state (repopulate_fields st d)) = xp_id_attr st)
   \<and> (xp_id d \<noteq> None \<and> current_job d \<noteq> None \<longrightarrow>
        xp_id_attr (final_state (repopulate_fields st d)) = xp_id d)"
  by (simp add: repopulate_fields_unfold render_queue_frame render_staged_job_frame
        render_current_job_frame check_xp_id_frame xp_id_attr_adopt)

theorem xp_id_adopted_only_with_current_job_witness:
  "xp_id snapshot_idle = Some ''3'' \<and> current_job snapshot_idle = None
   \<and> xp_id_attr (final_state (repopulate_fields page_unselected snapshot_idle)) = Some ''''
   \<and> current_job snapshot_running \<noteq> None
   \<and> xp_id_attr (final_state (repopulate_fields page_unselected snapshot_running)) = Some ''3''"
proof -
  have h: "xp_id snapshot_idle = Some ''3'' \<and> current_job snapshot_idle = None
           \<and> xp_id snapshot_running = Some ''3'' \<and> current_job snapshot_running \<noteq> None
           \<and> xp_id_attr page_unselected = Some ''''"
    by code_simp
  from xp_id_adopted_only_with_current_job [of snapshot_idle page_unselected]
       xp_id_adopted_only_with_current_job [of snapshot_running page_unselected] h
  show ?thesis by simp
qed

subsection \<open>The poll scheduler\<close>

lemma new_calls_append: "issued st' = issued st @ cs \<Longrightarrow> new_calls st st' = cs"
  by (simp add: new_calls_def)

lemma start_periodic_monitor_twice:
  "start_periodic_monitor (start_periodic_monitor st) = start_periodic_monitor st"
  by (simp add: start_periodic_monitor_def add_timer_def)

lemma stop_periodic_monitor_twice:
  "stop_periodic_monitor (stop_periodic_monitor st) = stop_periodic_monitor st"
  by (simp add: stop_periodic_monitor_def clear_timer_def split: option.splits)

lemma start_periodic_monitor_timers:
  "\<not> fishface_monitoring st \<Longrightarrow>
     timers (start_periodic_monitor st) =
       timers st @ [(next_timer st, \<lparr>kind = Interval, delay = 500, action = Act_repop_now\<rparr>)]"
  by (simp add: start_periodic_monitor_def add_timer_def)

lemma stop_periodic_monitor_inactive:
  "\<not> fishface_monitoring st \<Longrightarrow> fishface_update_loop st = None \<Longrightarrow> stop_periodic_monitor st = st"
  by (simp add: stop_periodic_monitor_def clear_timer_def)

text \<open>
  Claim C7: \<open>start_periodic_monitor\<close> and \<open>stop_periodic_monitor\<close> are idempotent.
  Starting twice leaves the page exactly as starting once does: the monitor active and,
  from an inactive monitor with no polling interval, a single interval of 500 ms.
  Stopping twice leaves the page exactly as stopping once does, the monitor inactive;
  stopping a monitor that was never started changes nothing.
\<close>

theorem monitor_start_stop_idempotent:
  "start_periodic_monitor (start_periodic_monitor st) = start_periodic_monitor st
   \<and> stop_periodic_monitor (stop_periodic_monitor st) = stop_periodic_monitor st
   \<and> fishface_monitoring (start_periodic_monitor st)
   \<and> \<not> fishface_monitoring (stop_periodic_monitor st)
   \<and> (\<not> fishface_monitoring st \<and> polling_intervals st = [] \<longrightarrow>
        polling_intervals (start_periodic_monitor (start_periodic_monitor st)) =
          [(next_timer st, \<lparr>kind = Interval, delay = 500, action = Act_repop_now\<rparr>)])
   \<and> (\<not> fishface_monitoring st \<and> fishface_update_loop st = None \<longrightarrow>
        stop_periodic_monitor st = st)"
  by (simp add: start_periodic_monitor_twice stop_periodic_monitor_twice
        start_periodic_monitor_monitoring stop_periodic_monitor_monitoring
        start_periodic_monitor_timers stop_periodic_monitor_inactive polling_intervals_def)

theorem monitor_start_stop_idempotent_witness:
  "\<not> fishface_monitoring (document_ready page_unselected)
   \<and> polling_intervals (document_ready page_unselected) = []
   \<and> fishface_update_loop (document_ready page_unselected) = None
   \<and> polling_intervals
        (start_periodic_monitor (start_periodic_monitor (document_ready page_unselected))) =
        [(1, \<lparr>kind = Interval, delay = 500, action = Act_repop_now\<rparr>)]
   \<and> stop_periodic_monitor (stop_periodic_monitor (document_ready page_unselected)) =
        document_ready page_unselected"
proof -
  let ?p = "document_ready page_unselected"
  have h: "\<not> fishface_monitoring ?p \<and> polling_intervals ?p = [] \<and> fishface_update_loop ?p = None"
    by code_simp
  have n: "next_timer ?p = 1"
    by code_simp
  from monitor_start_stop_idempotent [of ?p] h
  have a: "polling_intervals (start_periodic_monitor (start_periodic_monitor ?p)) =
             [(next_timer ?p, \<lparr>kind = Interval, delay = 500, action = Act_repop_now\<rparr>)]"
    by blast
  from monitor_start_stop_idempotent [of ?p] h
  have b: "stop_periodic_monitor ?p = ?p"
    by blast
  from h a b show ?thesis
    by (simp add: n)
qed

lemma repop_in_1_second_effect:
  "timers (repop_in_1_second st) =
     timers st @ [(next_timer st, \<lparr>kind = Timeout, delay = 1000, action = Act_repop_now\<rparr>)]"
  "issued (repop_in_1_second st) = issued st"
  "fishface_monitoring (repop_in_1_second st) = fishface_monitoring st"
  by (simp_all add: repop_in_1_second_def add_timer_def)

lemma fire_fresh_timeout:
  assumes "timers_fresh st"
  shows "fire_timer (next_timer st) (add_timer Timeout ms a st) =
           run_action a (st\<lparr>next_timer := Suc (next_timer st)\<rparr>)"
proof -
  let ?t = "\<lparr>kind = Timeout, delay = ms, action = a\<rparr>"
  have fresh: "list_all (\<lambda>p. fst p < next_timer st) (timers st)"
    using assms by (simp add: timers_fresh_def)
  have m: "map_of (timers st @ [(next_timer st, ?t)]) (next_timer st) = Some ?t"
    using fresh by (rule map_of_fresh)
  have f: "filter (\<lambda>p. fst p \<noteq> next_timer st) (timers st @ [(next_timer st, ?t)]) = timers st"
    using fresh by (rule filter_fresh)
  have "fire_timer (next_timer st) (add_timer Timeout ms a st) =
          run_action a
            ((add_timer Timeout ms a st)
               \<lparr>timers := filter (\<lambda>p. fst p \<noteq> next_timer st) (timers st @ [(next_timer st, ?t)])\<rparr>)"
    unfolding fire_timer_def using m by (simp add: add_timer_def del: map_of_append)
  also have "\<dots> = run_action a (st\<lparr>next_timer := Suc (next_timer st)\<rparr>)"
    unfolding f by (simp add: add_timer_def)
  finally show ?thesis .
qed

lemma fire_repop_in_1_second:
  "timers_fresh st \<Longrightarrow>
     issued (fire_timer (next_timer st) (repop_in_1_second st)) = issued st @ [status_call]"
  "timers_fresh st \<Longrightarrow> timers (fire_timer (next_timer st) (repop_in_1_second st)) = timers st"
  by (simp_all add: repop_in_1_second_def fire_fresh_timeout run_action_def repop_now_def
        status_call_def)

lemma push_entire_queue_issued:
  "issued (push_entire_queue st) = issued st @ [set_queue_call st]"
  by (simp add: push_entire_queue_def array_ne_new_array_def set_queue_call_def Let_def)

lemma clear_queue_issued:
  "push_policy st \<Longrightarrow>
     issued (clear_queue st) = issued st @
       [\<lparr>method_name = ''cjc.set_queue'', callback = Repop_in_1_second,
         args = [Arg_false,
                 Arg_payload
                   \<lparr>p_queue = Queue_json ''[]'', p_xp_id = get_xp_id st,
                    p_species = map_of (xp_species st) (property_key (get_xp_id st))\<rparr>]\<rparr>]"
  "\<not> push_policy st \<Longrightarrow> issued (clear_queue st) = issued st"
  by (simp_all add: clear_queue_def push_policy_def Let_def)

lemma abort_all_issued:
  "issued (abort_all st) = issued st @
     [\<lparr>method_name = ''cjc.abort_all'', callback = Repop_in_1_second, args = []\<rparr>]"
  by (simp add: abort_all_def)

text \<open>
  Claim C6: every mutating call this file issues (\<open>cjc.set_queue\<close> from
  \<open>push_entire_queue\<close> and from \<open>clear_queue\<close>, \<open>cjc.abort_all\<close> from \<open>abort_all\<close>)
  carries the callback \<open>repop_in_1_second\<close>. Run on completion of the call, it schedules
  exactly one timeout of 1000 ms and does nothing else, whatever the state of the
  recurring monitor; when that timeout fires, exactly one \<open>cjc.complete_status\<close> call is
  issued and the timeout is gone.
\<close>

theorem mutating_calls_schedule_one_repoll:
  "map callback (new_calls st (push_entire_queue st)) = [Repop_in_1_second]
   \<and> map method_name (new_calls st (push_entire_queue st)) = [''cjc.set_queue'']
   \<and> (push_policy st \<longrightarrow>
        map callback (new_calls st (clear_queue st)) = [Repop_in_1_second]
        \<and> map method_name (new_calls st (clear_queue st)) = [''cjc.set_queue''])
   \<and> map callback (new_calls st (abort_all st)) = [Repop_in_1_second]
   \<and> map method_name (new_calls st (abort_all st)) = [''cjc.abort_all'']
   \<and> run_callback Repop_in_1_second d st = Completed (repop_in_1_second st)
   \<and> timers (repop_in_1_second st) =
        timers st @ [(next_timer st, \<lparr>kind = Timeout, delay = 1000, action = Act_repop_now\<rparr>)]
   \<and> issued (repop_in_1_second st) = issued st
   \<and> fishface_monitoring (repop_in_1_second st) = fishface_monitoring st
   \<and> (timers_fresh st \<longrightarrow>
        new_calls st (fire_timer (next_timer st) (repop_in_1_second st)) = [status_call]
        \<and> timers (fire_timer (next_timer st) (repop_in_1_second st)) = timers st)"
proof -
  have a: "new_calls st (push_entire_queue st) = [set_queue_call st]"
    by (rule new_calls_append) (rule push_entire_queue_issued)
  have b: "push_policy st \<Longrightarrow>
        map callback (new_calls st (clear_queue st)) = [Repop_in_1_second]
        \<and> map method_name (new_calls st (clear_queue st)) = [''cjc.set_queue'']"
    by (simp add: new_calls_append [OF clear_queue_issued(1)])
  have c: "new_calls st (abort_all st) =
             [\<lparr>method_name = ''cjc.abort_all'', callback = Repop_in_1_second, args = []\<rparr>]"
    by (rule new_calls_append) (rule abort_all_issued)
  have e: "timers_fresh st \<Longrightarrow>
             new_calls st (fire_timer (next_timer st) (repop_in_1_second st)) = [status_call]"
    by (rule new_calls_append) (rule fire_repop_in_1_second)
  show ?thesis
    using a b c e
    by (simp add: set_queue_call_def run_callback_def repop_in_1_second_effect
          fire_repop_in_1_second(2))
qed

theorem mutating_calls_schedule_one_repoll_witness:
  "push_policy page_reordered \<and> timers_fresh page_reordered
   \<and> fishface_monitoring (start_periodic_monitor page_reordered)
   \<and> timers_fresh (start_periodic_monitor page_reordered)
   \<and> map callback (new_calls page_reordered (clear_queue page_reordered)) = [Repop_in_1_second]
   \<and> timers (repop_in_1_second page_reordered) =
        [(1, \<lparr>kind = Timeout, delay = 1000, action = Act_repop_now\<rparr>)]
   \<and> new_calls page_reordered (fire_timer 1 (repop_in_1_second page_reordered)) = [status_call]
   \<and> timers (repop_in_1_second (start_periodic_monitor page_reordered)) =
        [(1, \<lparr>kind = Interval, delay = 500, action = Act_repop_now\<rparr>),
         (2, \<lparr>kind = Timeout, delay = 1000, action = Act_repop_now\<rparr>)]"
proof -
  have h: "push_policy page_reordered \<and> timers_fresh page_reordered
           \<and> fishface_monitoring (start_periodic_monitor page_reordered)
           \<and> timers_fresh (start_periodic_monitor page_reordered)"
    by code_simp
  have v: "timers page_reordered = [] \<and> next_timer page_reordered = 1
           \<and> timers (start_periodic_monitor page_reordered) =
                [(1, \<lparr>kind = Interval, delay = 500, action = Act_repop_now\<rparr>)]
           \<and> next_timer (start_periodic_monitor page_reordered) = 2"
    by code_simp
  from mutating_calls_schedule_one_repoll [of page_reordered]
       mutating_calls_schedule_one_repoll [of "start_periodic_monitor page_reordered"] h v
  show ?thesis by simp
qed

subsection \<open>Edits of the queue\<close>

lemma get_queue_array_no_jobs_placeholder:
  "get_queue_array (no_jobs_placeholder st) = get_queue_array st"
  by (simp add: no_jobs_placeholder_def get_queue_array_def)

lemma no_jobs_placeholder_frame:
  "issued (no_jobs_placeholder st) = issued st"
  "monitor_state (no_jobs_placeholder st) = monitor_state st"
  "push_queue_on_update (no_jobs_placeholder st) = push_queue_on_update st"
  "xp_id_attr (no_jobs_placeholder st) = xp_id_attr st"
  "xp_species (no_jobs_placeholder st) = xp_species st"
  by (simp_all add: no_jobs_placeholder_def monitor_state_def)

lemma set_queue_call_cong:
  "get_queue_array st1 = get_queue_array st2 \<Longrightarrow> xp_id_attr st1 = xp_id_attr st2 \<Longrightarrow>
   xp_species st1 = xp_species st2 \<Longrightarrow> set_queue_call st1 = set_queue_call st2"
  by (simp add: set_queue_call_def get_xp_id_def)

lemma monitor_state_start_cong:
  "monitor_state st1 = monitor_state st2 \<Longrightarrow>
   monitor_state (start_periodic_monitor st1) = monitor_state (start_periodic_monitor st2)"
  by (simp add: monitor_state_def start_periodic_monitor_def add_timer_def)

lemma push_on_edit_frame:
  "get_queue_array (push_on_edit st) = get_queue_array st"
  "xp_id_attr (push_on_edit st) = xp_id_attr st"
  "xp_species (push_on_edit st) = xp_species st"
  "push_queue_on_update (push_on_edit st) = push_queue_on_update st"
  by (simp_all add: push_on_edit_def start_periodic_monitor_def add_timer_def repop_now_def
        push_entire_queue_def array_ne_new_array_def get_queue_array_def Let_def)

lemma push_on_edit_pushing:
  assumes "push_policy st"
  shows "issued (push_on_edit st) = issued st @ [set_queue_call st, status_call]"
    and "monitor_state (push_on_edit st) = monitor_state (start_periodic_monitor st)"
proof -
  have eq: "push_on_edit st = start_periodic_monitor (repop_now (push_entire_queue st))"
    using assms by (simp add: push_on_edit_def push_policy_def)
  show "issued (push_on_edit st) = issued st @ [set_queue_call st, status_call]"
    unfolding eq
    by (simp add: start_periodic_monitor_frame repop_now_def push_entire_queue_issued
          status_call_def)
  have "monitor_state (repop_now (push_entire_queue st)) = monitor_state st"
    by (simp add: monitor_state_def repop_now_def push_entire_queue_def Let_def)
  then show "monitor_state (push_on_edit st) = monitor_state (start_periodic_monitor st)"
    unfolding eq by (rule monitor_state_start_cong)
qed

lemma push_on_edit_local: "\<not> push_policy st \<Longrightarrow> push_on_edit st = st"
  by (simp add: push_on_edit_def push_policy_def)

text \<open>The handler \<open>update\<close>, from any page.\<close>

lemma sortable_update_frame:
  "get_queue_array (sortable_update st) = get_queue_array st"
  "xp_id_attr (sortable_update st) = xp_id_attr st"
  "xp_species (sortable_update st) = xp_species st"
  "push_queue_on_update (sortable_update st) = push_queue_on_update st"
  by (simp_all add: sortable_update_def get_queue_array_no_jobs_placeholder
        no_jobs_placeholder_frame push_on_edit_frame get_queue_array_remove_placeholder)

lemma sortable_update_pushing:
  assumes "push_policy st"
  shows "issued (sortable_update st) = issued st @ [set_queue_call st, status_call]"
    and "monitor_state (sortable_update st) = monitor_state (start_periodic_monitor st)"
proof -
  let ?s = "st\<lparr>capture_job_queue := remove_queue_placeholder (capture_job_queue st)\<rparr>"
  have p: "push_policy ?s"
    using assms by (simp add: push_policy_def)
  have c: "set_queue_call ?s = set_queue_call st"
    by (rule set_queue_call_cong) (simp_all add: get_queue_array_remove_placeholder)
  have m: "monitor_state (start_periodic_monitor ?s) = monitor_state (start_periodic_monitor st)"
    by (rule monitor_state_start_cong) (simp add: monitor_state_def)
  show "issued (sortable_update st) = issued st @ [set_queue_call st, status_call]"
    using push_on_edit_pushing(1) [OF p] c
    by (simp add: sortable_update_def no_jobs_placeholder_frame)
  show "monitor_state (sortable_update st) = monitor_state (start_periodic_monitor st)"
    using push_on_edit_pushing(2) [OF p] m
    by (simp add: sortable_update_def no_jobs_placeholder_frame)
qed

lemma sortable_update_local:
  assumes "\<not> push_policy st"
  shows "issued (sortable_update st) = issued st"
    and "monitor_state (sortable_update st) = monitor_state st"
proof -
  have "\<not> push_policy (st\<lparr>capture_job_queue := remove_queue_placeholder (capture_job_queue st)\<rparr>)"
    using assms by (simp add: push_policy_def)
  then have eq: "sortable_update st =
      no_jobs_placeholder (st\<lparr>capture_job_queue := remove_queue_placeholder (capture_job_queue st)\<rparr>)"
    by (simp add: sortable_update_def push_on_edit_local)
  show "issued (sortable_update st) = issued st"
    unfolding eq by (simp add: no_jobs_placeholder_frame)
  show "monitor_state (sortable_update st) = monitor_state st"
    unfolding eq by (simp add: no_jobs_placeholder_frame) (simp add: monitor_state_def)
qed

text \<open>The handler \<open>beforeStop\<close>: the item is kept, or it was dragged out and is removed.\<close>

lemma sortable_beforeStop_kept:
  "keep_job_in_queue st \<noteq> Some 0 \<Longrightarrow>
     sortable_beforeStop i h st = st\<lparr>new_item := Some i, attrib_job_spec := h\<rparr>"
  by (simp add: sortable_beforeStop_def)

lemma sortable_beforeStop_removed:
  "keep_job_in_queue st = Some 0 \<Longrightarrow>
     sortable_beforeStop i h st =
       push_on_edit (no_jobs_placeholder (st\<lparr>capture_job_queue := remove_item i (capture_job_queue st)\<rparr>))"
  by (simp add: sortable_beforeStop_def Let_def no_jobs_placeholder_def)

lemma sortable_beforeStop_removed_frame:
  assumes "keep_job_in_queue st = Some 0"
  shows "get_queue_array (sortable_beforeStop i h st) =
           get_queue_array (st\<lparr>capture_job_queue := remove_item i (capture_job_queue st)\<rparr>)"
    and "xp_id_attr (sortable_beforeStop i h st) = xp_id_attr st"
    and "xp_species (sortable_beforeStop i h st) = xp_species st"
    and "push_queue_on_update (sortable_beforeStop i h st) = push_queue_on_update st"
  by (simp_all add: sortable_beforeStop_removed [OF assms] push_on_edit_frame
        get_queue_array_no_jobs_placeholder no_jobs_placeholder_frame)

lemma sortable_beforeStop_pushing:
  assumes "keep_job_in_queue st = Some 0" and "push_policy st"
  shows "issued (sortable_beforeStop i h st) =
           issued st @ [set_queue_call (st\<lparr>capture_job_queue := remove_item i (capture_job_queue st)\<rparr>),
                        status_call]"
    and "monitor_state (sortable_beforeStop i h st) = monitor_state (start_periodic_monitor st)"
proof -
  let ?s1 = "st\<lparr>capture_job_queue := remove_item i (capture_job_queue st)\<rparr>"
  let ?s = "no_jobs_placeholder ?s1"
  have p: "push_policy ?s"
    using assms(2) by (simp add: push_policy_def no_jobs_placeholder_frame)
  have c: "set_queue_call ?s = set_queue_call ?s1"
    by (rule set_queue_call_cong)
       (simp_all only: get_queue_array_no_jobs_placeholder no_jobs_placeholder_frame)
  have m: "monitor_state (start_periodic_monitor ?s) = monitor_state (start_periodic_monitor st)"
    by (rule monitor_state_start_cong) (simp add: no_jobs_placeholder_frame, simp add: monitor_state_def)
  show "issued (sortable_beforeStop i h st) = issued st @ [set_queue_call ?s1, status_call]"
    using push_on_edit_pushing(1) [OF p] c
    by (simp add: sortable_beforeStop_removed [OF assms(1)] no_jobs_placeholder_frame)
  show "monitor_state (sortable_beforeStop i h st) = monitor_state (start_periodic_monitor st)"
    using push_on_edit_pushing(2) [OF p] m
    by (simp add: sortable_beforeStop_removed [OF assms(1)])
qed

lemma sortable_beforeStop_local:
  assumes "\<not> push_policy st"
  shows "issued (sortable_beforeStop i h st) = issued st"
    and "monitor_state (sortable_beforeStop i h st) = monitor_state st"
    and "push_queue_on_update (sortable_beforeStop i h st) = push_queue_on_update st"
  using assms
  by (simp_all add: sortable_beforeStop_def Let_def push_on_edit_def push_policy_def
        no_jobs_placeholder_def monitor_state_def)

text \<open>A whole drop.\<close>

lemma sortable_drop_unfold:
  "sortable_drop i h False st = sortable_beforeStop i h st"
  "sortable_drop i h True st = sortable_update (sortable_beforeStop i h st)"
  by (simp_all add: sortable_drop_def)

lemma sortable_drop_reorder:
  assumes "push_policy st" and "keep_job_in_queue st \<noteq> Some 0"
  shows "issued (sortable_drop i h True st) = issued st @ [set_queue_call st, status_call]"
    and "monitor_state (sortable_drop i h True st) = monitor_state (start_periodic_monitor st)"
    and "issued (sortable_drop i h False st) = issued st"
    and "monitor_state (sortable_drop i h False st) = monitor_state st"
proof -
  let ?s = "st\<lparr>new_item := Some i, attrib_job_spec := h\<rparr>"
  have b: "sortable_beforeStop i h st = ?s"
    using assms(2) by (rule sortable_beforeStop_kept)
  have p: "push_policy ?s"
    using assms(1) by (simp add: push_policy_def)
  have c: "set_queue_call ?s = set_queue_call st"
    by (rule set_queue_call_cong) (simp_all add: get_queue_array_def)
  have m: "monitor_state (start_periodic_monitor ?s) = monitor_state (start_periodic_monitor st)"
    by (rule monitor_state_start_cong) (simp add: monitor_state_def)
  show "issued (sortable_drop i h True st) = issued st @ [set_queue_call st, status_call]"
    using sortable_update_pushing(1) [OF p] c by (simp add: sortable_drop_unfold b)
  show "monitor_state (sortable_drop i h True st) = monitor_state (start_periodic_monitor st)"
    using sortable_update_pushing(2) [OF p] m by (simp add: sortable_drop_unfold b)
  show "issued (sortable_drop i h False st) = issued st"
    by (simp add: sortable_drop_unfold b)
  show "monitor_state (sortable_drop i h False st) = monitor_state st"
    by (simp add: sortable_drop_unfold b monitor_state_def)
qed

lemma sortable_drop_deletion:
  assumes "push_policy st" and "keep_job_in_queue st = Some 0"
  shows "issued (sortable_drop i h False st) =
           issued st @ [set_queue_call (st\<lparr>capture_job_queue := remove_item i (capture_job_queue st)\<rparr>),
                        status_call]"
    and "issued (sortable_drop i h True st) =
           issued st @ [set_queue_call (st\<lparr>capture_job_queue := remove_item i (capture_job_queue st)\<rparr>),
                        status_call,
                        set_queue_call (st\<lparr>capture_job_queue := remove_item i (capture_job_queue st)\<rparr>),
                        status_call]"
    and "monitor_state (sortable_drop i h moved st) = monitor_state (start_periodic_monitor st)"
proof -
  let ?r = "st\<lparr>capture_job_queue := remove_item i (capture_job_queue st)\<rparr>"
  let ?b = "sortable_beforeStop i h st"
  have p: "push_policy ?b"
    using assms(1) by (simp add: push_policy_def sortable_beforeStop_removed_frame [OF assms(2)])
  have c: "set_queue_call ?b = set_queue_call ?r"
    by (rule set_queue_call_cong) (simp_all add: sortable_beforeStop_removed_frame [OF assms(2)])
  have m: "monitor_state ?b = monitor_state (start_periodic_monitor st)"
    using assms by (simp add: sortable_beforeStop_pushing)
  have m2: "monitor_state (start_periodic_monitor ?b) = monitor_state (start_periodic_monitor st)"
    using monitor_state_start_cong [OF m] by (simp add: start_periodic_monitor_twice)
  show "issued (sortable_drop i h False st) = issued st @ [set_queue_call ?r, status_call]"
    using assms by (simp add: sortable_drop_unfold sortable_beforeStop_pushing)
  show "issued (sortable_drop i h True st) =
          issued st @ [set_queue_call ?r, status_call, set_queue_call ?r, status_call]"
    using assms sortable_update_pushing(1) [OF p] c
    by (simp add: sortable_drop_unfold sortable_beforeStop_pushing)
  show "monitor_state (sortable_drop i h moved st) = monitor_state (start_periodic_monitor st)"
    using m m2 sortable_update_pushing(2) [OF p]
    by (cases moved) (simp_all add: sortable_drop_unfold)
qed

lemma sortable_drop_local:
  assumes "\<not> push_policy st"
  shows "issued (sortable_drop i h moved st) = issued st"
    and "monitor_state (sortable_drop i h moved st) = monitor_state st"
proof -
  have p: "\<not> push_policy (sortable_beforeStop i h st)"
    using assms by (simp add: push_policy_def sortable_beforeStop_local(3) [OF assms])
  show "issued (sortable_drop i h moved st) = issued st"
    using sortable_update_local(1) [OF p] sortable_beforeStop_local(1) [OF assms]
    by (cases moved) (simp_all add: sortable_drop_unfold)
  show "monitor_state (sortable_drop i h moved st) = monitor_state st"
    using sortable_update_local(2) [OF p] sortable_beforeStop_local(2) [OF assms]
    by (cases moved) (simp_all add: sortable_drop_unfold)
qed

lemma sortable_drop_queue:
  "get_queue_array (sortable_drop i h moved st) =
     (if keep_job_in_queue st = Some 0
      then get_queue_array (st\<lparr>capture_job_queue := remove_item i (capture_job_queue st)\<rparr>)
      else get_queue_array st)"
proof (cases "keep_job_in_queue st = Some 0")
  case True
  then show ?thesis
    by (cases moved)
       (simp_all add: sortable_drop_unfold sortable_update_frame sortable_beforeStop_removed_frame)
next
  case False
  have k: "get_queue_array (st\<lparr>new_item := Some i, attrib_job_spec := h\<rparr>) = get_queue_array st"
    by (simp add: get_queue_array_def)
  from False show ?thesis
    by (cases moved)
       (simp_all add: sortable_drop_unfold sortable_update_frame sortable_beforeStop_kept k)
qed

text \<open>
  Claim C2, as the code has it: the push is per handler, not per drop. With PushPolicy
  true, every handler of a drop that pushes issues exactly one \<open>cjc.set_queue\<close> call
  carrying the entire working copy in its new order for the selected experiment, with
  the one-shot re-poll \<open>repop_in_1_second\<close> as its completion callback (one timeout of
  1000 ms), followed at once by one \<open>cjc.complete_status\<close> call, and leaves the recurring
  monitor exactly as \<open>start_periodic_monitor\<close> does (active, with its 500 ms interval).
  A reorder (the item kept, \<open>update\<close> called) therefore issues exactly one
  \<open>cjc.set_queue\<close> call, and so does a drag-out deletion after which \<open>update\<close> is not
  called; a drag-out deletion after which \<open>update\<close> is called issues two, with the same
  payload; a kept item that did not move issues none. With PushPolicy false no drop
  issues any call or touches the monitor or a timer, and the page keeps the edited queue.
\<close>

theorem drop_pushes_once_per_handler:
  "(push_policy st \<and> keep_job_in_queue st \<noteq> Some 0 \<longrightarrow>
      new_calls st (sortable_drop i h True st) = [set_queue_call st, status_call]
      \<and> monitor_state (sortable_drop i h True st) = monitor_state (start_periodic_monitor st)
      \<and> new_calls st (sortable_drop i h False st) = []
      \<and> monitor_state (sortable_drop i h False st) = monitor_state st)
   \<and> (push_policy st \<and> keep_job_in_queue st = Some 0 \<longrightarrow>
      new_calls st (sortable_drop i h False st) =
        [set_queue_call (st\<lparr>capture_job_queue := remove_item i (capture_job_queue st)\<rparr>), status_call]
      \<and> new_calls st (sortable_drop i h True st) =
        [set_queue_call (st\<lparr>capture_job_queue := remove_item i (capture_job_queue st)\<rparr>), status_call,
         set_queue_call (st\<lparr>capture_job_queue := remove_item i (capture_job_queue st)\<rparr>), status_call]
      \<and> monitor_state (sortable_drop i h moved st) = monitor_state (start_periodic_monitor st))
   \<and> (\<not> push_policy st \<longrightarrow>
      new_calls st (sortable_drop i h moved st) = []
      \<and> monitor_state (sortable_drop i h moved st) = monitor_state st
      \<and> get_queue_array (sortable_drop i h moved st) =
          (if keep_job_in_queue st = Some 0
           then get_queue_array (st\<lparr>capture_job_queue := remove_item i (capture_job_queue st)\<rparr>)
           else get_queue_array st))
   \<and> method_name (set_queue_call st) = ''cjc.set_queue''
   \<and> method_name status_call = ''cjc.complete_status''
   \<and> args (set_queue_call st) =
        [Arg_payload
          \<lparr>p_queue = Queue_array (get_queue_array st), p_xp_id = get_xp_id st,
           p_species = map_of (xp_species st) (property_key (get_xp_id st))\<rparr>]
   \<and> run_callback (callback (set_queue_call st)) d s = Completed (repop_in_1_second s)
   \<and> timers (repop_in_1_second s) =
        timers s @ [(next_timer s, \<lparr>kind = Timeout, delay = 1000, action = Act_repop_now\<rparr>)]
   \<and> fishface_monitoring (start_periodic_monitor st)
   \<and> (\<not> fishface_monitoring st \<longrightarrow>
        timers (start_periodic_monitor st) =
          timers st @ [(next_timer st, \<lparr>kind = Interval, delay = 500, action = Act_repop_now\<rparr>)])"
proof -
  let ?r = "st\<lparr>capture_job_queue := remove_item i (capture_job_queue st)\<rparr>"
  have a1: "push_policy st \<Longrightarrow> keep_job_in_queue st \<noteq> Some 0 \<Longrightarrow>
      new_calls st (sortable_drop i h True st) = [set_queue_call st, status_call]"
    by (rule new_calls_append) (rule sortable_drop_reorder)
  have a2: "push_policy st \<Longrightarrow> keep_job_in_queue st \<noteq> Some 0 \<Longrightarrow>
      new_calls st (sortable_drop i h False st) = []"
    by (simp add: new_calls_def sortable_drop_reorder)
  have b1: "push_policy st \<Longrightarrow> keep_job_in_queue st = Some 0 \<Longrightarrow>
      new_calls st (sortable_drop i h False st) = [set_queue_call ?r, status_call]"
    by (rule new_calls_append) (rule sortable_drop_deletion)
  have b2: "push_policy st \<Longrightarrow> keep_job_in_queue st = Some 0 \<Longrightarrow>
      new_calls st (sortable_drop i h True st) =
        [set_queue_call ?r, status_call, set_queue_call ?r, status_call]"
    by (rule new_calls_append) (rule sortable_drop_deletion)
  have c: "\<not> push_policy st \<Longrightarrow> new_calls st (sortable_drop i h moved st) = []"
    by (simp add: new_calls_def sortable_drop_local)
  have e: "run_callback (callback (set_queue_call st)) d s = Completed (repop_in_1_second s)"
    by (simp add: set_queue_call_def run_callback_def)
  have f: "method_name status_call = ''cjc.complete_status''"
    by (simp add: status_call_def)
  have g: "method_name (set_queue_call st) = ''cjc.set_queue''"
          "args (set_queue_call st) =
            [Arg_payload
              \<lparr>p_queue = Queue_array (get_queue_array st), p_xp_id = get_xp_id st,
               p_species = map_of (xp_species st) (property_key (get_xp_id st))\<rparr>]"
    by (simp_all add: set_queue_call_def)
  show ?thesis
    using a1 a2 b1 b2 c e f g sortable_drop_reorder(2,4) sortable_drop_deletion(3)
      sortable_drop_local(2) sortable_drop_queue repop_in_1_second_effect(1)
      start_periodic_monitor_monitoring start_periodic_monitor_timers
    by simp
qed

theorem drop_pushes_once_per_handler_witness:
  "push_policy page_reordered \<and> keep_job_in_queue page_reordered \<noteq> Some 0
   \<and> new_calls page_reordered (sortable_drop 2 None True page_reordered) =
       [\<lparr>method_name = ''cjc.set_queue'', callback = Repop_in_1_second,
         args = [Arg_payload \<lparr>p_queue = Queue_array [''B'', ''C'', ''A''], p_xp_id = X_string ''3'',
                              p_species = Some ''HSB''\<rparr>]\<rparr>,
        status_call]
   \<and> monitor_state (sortable_drop 2 None True page_reordered) =
       (True, Some 1, [(1, \<lparr>kind = Interval, delay = 500, action = Act_repop_now\<rparr>)], 2)
   \<and> keep_job_in_queue (sortable_out page_reordered) = Some 0
   \<and> map args (new_calls (sortable_out page_reordered)
        (sortable_drop 1 None False (sortable_out page_reordered))) =
       [[Arg_payload \<lparr>p_queue = Queue_array [''B'', ''A''], p_xp_id = X_string ''3'',
                       p_species = Some ''HSB''\<rparr>],
        [Arg_empty_object, Arg_true]]
   \<and> \<not> push_policy page_selected
   \<and> new_calls page_selected (sortable_drop 0 None True page_selected) = []
   \<and> monitor_state (sortable_drop 0 None True page_selected) = monitor_state page_selected"
proof -
  have h: "push_policy page_reordered \<and> keep_job_in_queue page_reordered \<noteq> Some 0
           \<and> keep_job_in_queue (sortable_out page_reordered) = Some 0
           \<and> push_policy (sortable_out page_reordered) \<and> \<not> push_policy page_selected"
    by code_simp
  have v: "set_queue_call page_reordered =
             \<lparr>method_name = ''cjc.set_queue'', callback = Repop_in_1_second,
              args = [Arg_payload \<lparr>p_queue = Queue_array [''B'', ''C'', ''A''], p_xp_id = X_string ''3'',
                              p_species = Some ''HSB''\<rparr>]\<rparr>"
    by code_simp
  have w: "args (set_queue_call ((sortable_out page_reordered)
             \<lparr>capture_job_queue := remove_item 1 (capture_job_queue (sortable_out page_reordered))\<rparr>)) =
           [Arg_payload \<lparr>p_queue = Queue_array [''B'', ''A''], p_xp_id = X_string ''3'',
                       p_species = Some ''HSB''\<rparr>]"
    by code_simp
  have s: "args status_call = [Arg_empty_object, Arg_true]"
    by code_simp
  have m: "monitor_state (start_periodic_monitor page_reordered) =
             (True, Some 1, [(1, \<lparr>kind = Interval, delay = 500, action = Act_repop_now\<rparr>)], 2)"
    by code_simp
  from drop_pushes_once_per_handler [of page_reordered 2 None]
       drop_pushes_once_per_handler [of "sortable_out page_reordered" 1 None]
       drop_pushes_once_per_handler [of page_selected 0 None True] h v w s m
  show ?thesis by simp
qed

text \<open>
  Claim C2 as stated fails: with PushPolicy true, a drag-out deletion after which jQuery
  UI also calls \<open>update\<close> issues two \<open>cjc.set_queue\<close> calls, not exactly one.
\<close>

theorem deletion_drop_pushes_twice:
  "push_policy (sortable_out page_reordered)
   \<and> keep_job_in_queue (sortable_out page_reordered) = Some 0
   \<and> sortable_drop 1 None True (sortable_out page_reordered) =
       sortable_update (sortable_beforeStop 1 None (sortable_out page_reordered))
   \<and> get_queue_array (sortable_drop 1 None True (sortable_out page_reordered)) = [''B'', ''A'']
   \<and> map method_name (new_calls (sortable_out page_reordered)
        (sortable_drop 1 None True (sortable_out page_reordered))) =
       [''cjc.set_queue'', ''cjc.complete_status'', ''cjc.set_queue'', ''cjc.complete_status'']"
  by code_simp

text \<open>
  Claim C4, on the code: with PushPolicy true \<open>clear_queue\<close> issues one \<open>cjc.set_queue\<close>
  call, but its third argument, where \<open>push_entire_queue\<close> and \<open>repop_now\<close> pass the
  data of the call, is the literal \<open>false\<close>; the object holding the empty queue and the
  selected experiment comes fourth. With PushPolicy false it only resets the rendered
  queue to the placeholder and issues nothing.
\<close>

theorem clear_queue_passes_false_as_data:
  "push_policy page_reordered
   \<and> map args (new_calls page_reordered (clear_queue page_reordered)) =
       [[Arg_false,
         Arg_payload \<lparr>p_queue = Queue_json ''[]'', p_xp_id = X_string ''3'', p_species = Some ''HSB''\<rparr>]]
   \<and> map args (new_calls page_reordered (push_entire_queue page_reordered)) =
       [[Arg_payload \<lparr>p_queue = Queue_array [''B'', ''C'', ''A''], p_xp_id = X_string ''3'',
                       p_species = Some ''HSB''\<rparr>]]
   \<and> map args (new_calls page_reordered (repop_now page_reordered)) = [[Arg_empty_object, Arg_true]]
   \<and> \<not> push_policy page_selected
   \<and> new_calls page_selected (clear_queue page_selected) = []
   \<and> capture_job_queue (clear_queue page_selected) = [Queue_placeholder]"
  by code_simp

subsection \<open>Changing the experiment\<close>

lemma change_experiment_rejected:
  "current_job_wrapper_display st \<noteq> ''none'' \<Longrightarrow>
     change_experiment st =
       add_timer Timeout 3000 Act_remove_no_change_during_run
         (st\<lparr>no_change_during_run := Suc (no_change_during_run st)\<rparr>)"
  by (simp add: change_experiment_def)

lemma change_experiment_rejected_fields:
  assumes "current_job_wrapper_display st \<noteq> ''none''"
  shows "xp_id_attr (change_experiment st) = xp_id_attr st"
    and "xp_select_wrapper_display (change_experiment st) = xp_select_wrapper_display st"
    and "issued (change_experiment st) = issued st"
    and "no_change_during_run (change_experiment st) = Suc (no_change_during_run st)"
    and "timers (change_experiment st) =
           timers st @ [(next_timer st,
             \<lparr>kind = Timeout, delay = 3000, action = Act_remove_no_change_during_run\<rparr>)]"
  by (simp_all add: change_experiment_rejected [OF assms] add_timer_def)

lemma change_experiment_warning_dismissed:
  assumes "current_job_wrapper_display st \<noteq> ''none''" and "timers_fresh st"
  shows "no_change_during_run (fire_timer (next_timer st) (change_experiment st)) =
           no_change_during_run st"
    and "timers (fire_timer (next_timer st) (change_experiment st)) = timers st"
proof -
  let ?s = "st\<lparr>no_change_during_run := Suc (no_change_during_run st)\<rparr>"
  have fresh: "timers_fresh ?s"
    using assms(2) by (simp add: timers_fresh_def)
  have "fire_timer (next_timer ?s) (add_timer Timeout 3000 Act_remove_no_change_during_run ?s) =
          run_action Act_remove_no_change_during_run (?s\<lparr>next_timer := Suc (next_timer ?s)\<rparr>)"
    using fresh by (rule fire_fresh_timeout)
  then have eq: "fire_timer (next_timer st) (change_experiment st) =
          run_action Act_remove_no_change_during_run (?s\<lparr>next_timer := Suc (next_timer st)\<rparr>)"
    by (simp add: change_experiment_rejected [OF assms(1)])
  show "no_change_during_run (fire_timer (next_timer st) (change_experiment st)) =
           no_change_during_run st"
    unfolding eq by (simp add: run_action_def)
  show "timers (fire_timer (next_timer st) (change_experiment st)) = timers st"
    unfolding eq by (simp add: run_action_def)
qed

lemma check_xp_id_empty:
  "xp_id_attr st = Some '''' \<Longrightarrow>
     snd (check_xp_id st) =
       st\<lparr>capturejob_queue_wrapper_display := ''none'',
          xp_display_wrapper_display := ''none'',
          xp_select_wrapper_display := ''block''\<rparr>"
  by (simp add: check_xp_id_def get_xp_id_def Let_def string_to_number_is_zero_empty)

lemma change_experiment_accepted:
  assumes "current_job_wrapper_display st = ''none''"
  shows "xp_id_attr (change_experiment st) = Some ''''"
    and "xp_select_wrapper_display (change_experiment st) = ''block''"
    and "issued (change_experiment st) = issued st"
    and "timers (change_experiment st) = timers st"
proof -
  have "change_experiment st = snd (check_xp_id (st\<lparr>xp_id_attr := Some ''''\<rparr>))"
    using assms by (simp add: change_experiment_def)
  also have "\<dots> = st\<lparr>xp_id_attr := Some '''', capturejob_queue_wrapper_display := ''none'',
                       xp_display_wrapper_display := ''none'',
                       xp_select_wrapper_display := ''block''\<rparr>"
    by (simp add: check_xp_id_empty)
  finally have eq: "change_experiment st =
      st\<lparr>xp_id_attr := Some '''', capturejob_queue_wrapper_display := ''none'',
         xp_display_wrapper_display := ''none'', xp_select_wrapper_display := ''block''\<rparr>" .
  show "xp_id_attr (change_experiment st) = Some ''''"
    and "xp_select_wrapper_display (change_experiment st) = ''block''"
    and "issued (change_experiment st) = issued st"
    and "timers (change_experiment st) = timers st"
    unfolding eq by simp_all
qed

lemma xp_select_form_submit_effect:
  "xp_id_attr (xp_select_form_submit xp st) = Some xp"
  "issued (xp_select_form_submit xp st) = issued st @ [status_call]"
  by (simp_all add: xp_select_form_submit_def repop_now_def check_xp_id_frame status_call_def)

lemma current_job_panel_follows_snapshot:
  "experiment_selected st d \<Longrightarrow>
     current_job_wrapper_display (final_state (repopulate_fields st d)) =
       (if current_job d \<noteq> None then ''block'' else ''none'')"
  by (simp add: repopulate_fields_unfold render_queue_frame render_staged_job_frame
        render_current_job_display)

text \<open>
  Claim C8, as the code has it: the guard is on the change button, and it reads the
  current-job panel. \<open>change_experiment\<close> while the panel is displayed (a \<open>current_job\<close>
  was present in the last snapshot applied with an experiment selected) is rejected on
  the page: the stored experiment id and the hidden selector stay as they are, nothing is
  sent, one warning box is appended and a timeout of 3000 ms removes it again. While the
  panel is hidden, \<open>change_experiment\<close> clears the stored id and shows the selector,
  still sending nothing. Submitting the selector form stores the chosen id and issues one
  \<open>cjc.complete_status\<close> call at once; that handler does not look at the current job.
\<close>

theorem change_experiment_guarded_by_current_job_panel:
  "(current_job_wrapper_display st \<noteq> ''none'' \<longrightarrow>
      xp_id_attr (change_experiment st) = xp_id_attr st
      \<and> xp_select_wrapper_display (change_experiment st) = xp_select_wrapper_display st
      \<and> new_calls st (change_experiment st) = []
      \<and> no_change_during_run (change_experiment st) = Suc (no_change_during_run st)
      \<and> timers (change_experiment st) =
          timers st @ [(next_timer st,
            \<lparr>kind = Timeout, delay = 3000, action = Act_remove_no_change_during_run\<rparr>)]
      \<and> (timers_fresh st \<longrightarrow>
          no_change_during_run (fire_timer (next_timer st) (change_experiment st)) =
            no_change_during_run st
          \<and> timers (fire_timer (next_timer st) (change_experiment st)) = timers st))
   \<and> (current_job_wrapper_display st = ''none'' \<longrightarrow>
      xp_id_attr (change_experiment st) = Some ''''
      \<and> xp_select_wrapper_display (change_experiment st) = ''block''
      \<and> new_calls st (change_experiment st) = []
      \<and> timers (change_experiment st) = timers st)
   \<and> xp_id_attr (xp_select_form_submit xp st) = Some xp
   \<and> new_calls st (xp_select_form_submit xp st) = [status_call]
   \<and> (experiment_selected st d \<longrightarrow>
      (current_job_wrapper_display (final_state (repopulate_fields st d)) \<noteq> ''none'') =
        (current_job d \<noteq> None))"
proof -
  have a: "current_job_wrapper_display st \<noteq> ''none'' \<Longrightarrow> new_calls st (change_experiment st) = []"
    by (simp add: new_calls_def change_experiment_rejected_fields)
  have b: "current_job_wrapper_display st = ''none'' \<Longrightarrow> new_calls st (change_experiment st) = []"
    by (simp add: new_calls_def change_experiment_accepted)
  have c: "new_calls st (xp_select_form_submit xp st) = [status_call]"
    by (rule new_calls_append) (rule xp_select_form_submit_effect)
  have e: "experiment_selected st d \<Longrightarrow>
      (current_job_wrapper_display (final_state (repopulate_fields st d)) \<noteq> ''none'') =
        (current_job d \<noteq> None)"
    by (simp add: current_job_panel_follows_snapshot)
  show ?thesis
    using a b c e change_experiment_rejected_fields change_experiment_warning_dismissed
      change_experiment_accepted xp_select_form_submit_effect(1)
    by simp
qed

theorem change_experiment_guarded_by_current_job_panel_witness:
  "experiment_selected page_selected snapshot_running \<and> current_job snapshot_running \<noteq> None
   \<and> timers_fresh (final_state (repopulate_fields page_selected snapshot_running))
   \<and> xp_id_attr (change_experiment (final_state (repopulate_fields page_selected snapshot_running))) =
       Some ''3''
   \<and> no_change_during_run
       (change_experiment (final_state (repopulate_fields page_selected snapshot_running))) = 1
   \<and> no_change_during_run
       (fire_timer 2 (change_experiment (final_state (repopulate_fields page_selected snapshot_running)))) = 0
   \<and> current_job_wrapper_display page_selected = ''none''
   \<and> xp_id_attr (change_experiment page_selected) = Some ''''
   \<and> xp_id_attr (xp_select_form_submit ''5'' (change_experiment page_selected)) = Some ''5''
   \<and> new_calls (change_experiment page_selected)
       (xp_select_form_submit ''5'' (change_experiment page_selected)) = [status_call]"
proof -
  let ?r = "final_state (repopulate_fields page_selected snapshot_running)"
  have h: "experiment_selected page_selected snapshot_running \<and> current_job snapshot_running \<noteq> None
           \<and> timers_fresh ?r \<and> current_job_wrapper_display page_selected = ''none''"
    by code_simp
  have v: "xp_id_attr ?r = Some ''3'' \<and> no_change_during_run ?r = 0 \<and> next_timer ?r = 2"
    by code_simp
  from change_experiment_guarded_by_current_job_panel [of page_selected _ snapshot_running] h
  have shown: "current_job_wrapper_display ?r \<noteq> ''none''"
    by blast
  from change_experiment_guarded_by_current_job_panel [of ?r] shown h
  have r: "xp_id_attr (change_experiment ?r) = xp_id_attr ?r
           \<and> no_change_during_run (change_experiment ?r) = Suc (no_change_during_run ?r)
           \<and> no_change_during_run (fire_timer (next_timer ?r) (change_experiment ?r)) =
               no_change_during_run ?r"
    by blast
  from change_experiment_guarded_by_current_job_panel [of page_selected] h
  have s: "xp_id_attr (change_experiment page_selected) = Some ''''"
    by blast
  from change_experiment_guarded_by_current_job_panel [of "change_experiment page_selected" "''5''"]
  have t: "xp_id_attr (xp_select_form_submit ''5'' (change_experiment page_selected)) = Some ''5''
           \<and> new_calls (change_experiment page_selected)
               (xp_select_form_submit ''5'' (change_experiment page_selected)) = [status_call]"
    by blast
  from h v r s t show ?thesis
    by simp
qed

text \<open>
  Claim C8 as stated fails: selecting an experiment is not rejected while the last
  applied snapshot has a \<open>current_job\<close>. With experiment 3 selected and its job running,
  the form handler stores experiment 5 and sends a status request, with no warning. And
  with no experiment selected, after a snapshot with a \<open>current_job\<close> and no \<open>xp_id\<close>
  the selector is shown, the form handler does the same, and \<open>change_experiment\<close> gives
  no warning either.
\<close>

theorem experiment_selected_while_job_running:
  "current_job snapshot_running \<noteq> None
   \<and> xp_id_attr (final_state (repopulate_fields page_selected snapshot_running)) = Some ''3''
   \<and> xp_id_attr (xp_select_form_submit ''5''
        (final_state (repopulate_fields page_selected snapshot_running))) = Some ''5''
   \<and> new_calls (final_state (repopulate_fields page_selected snapshot_running))
        (xp_select_form_submit ''5''
          (final_state (repopulate_fields page_selected snapshot_running))) = [status_call]
   \<and> no_change_during_run (xp_select_form_submit ''5''
        (final_state (repopulate_fields page_selected snapshot_running))) = 0
   \<and> current_job snapshot_running_no_xp_id \<noteq> None
   \<and> xp_select_wrapper_display
        (final_state (repopulate_fields page_unselected snapshot_running_no_xp_id)) = ''block''
   \<and> xp_id_attr (xp_select_form_submit ''5''
        (final_state (repopulate_fields page_unselected snapshot_running_no_xp_id))) = Some ''5''
   \<and> new_calls (final_state (repopulate_fields page_unselected snapshot_running_no_xp_id))
        (xp_select_form_submit ''5''
          (final_state (repopulate_fields page_unselected snapshot_running_no_xp_id))) = [status_call]
   \<and> no_change_during_run (change_experiment
        (final_state (repopulate_fields page_unselected snapshot_running_no_xp_id))) = 0"
  by code_simp

end
